theory Spec2Isabelle
  imports Main "HOL-Library.Word"
begin

unbundle bit_operations_syntax

section \<open>The variable registry (variables/variables.go)\<close>

text \<open>
  \<^verbatim>\<open>VariableType\<close> and \<^verbatim>\<open>MetaType\<close> are Go bytes. The \<^verbatim>\<open>iota\<close> block numbers
  the variables from 1; 0 is the blank identifier and \<^verbatim>\<open>typeEnd\<close> closes the block.
\<close>

type_synonym VariableType = "8 word"
type_synonym MetaType = "8 word"

definition VarOs :: VariableType where "VarOs = 1"
definition VarOsLinux :: VariableType where "VarOsLinux = 2"
definition VarOsWindows :: VariableType where "VarOsWindows = 3"
definition VarOsDarwin :: VariableType where "VarOsDarwin = 4"
definition VarTimeNow :: VariableType where "VarTimeNow = 5"
definition VarFilePath :: VariableType where "VarFilePath = 6"
definition VarFileName :: VariableType where "VarFileName = 7"
definition VarFileExtension :: VariableType where "VarFileExtension = 8"
definition VarFileReadonly :: VariableType where "VarFileReadonly = 9"
definition VarFileHidden :: VariableType where "VarFileHidden = 10"
definition VarFileSystem :: VariableType where "VarFileSystem = 11"
definition VarFileCompressed :: VariableType where "VarFileCompressed = 12"
definition VarFileEncrypted :: VariableType where "VarFileEncrypted = 13"
definition VarFileModifiedTime :: VariableType where "VarFileModifiedTime = 14"
definition VarFileAccessedTime :: VariableType where "VarFileAccessedTime = 15"
definition VarFileChangedTime :: VariableType where "VarFileChangedTime = 16"
definition VarFileBirthTime :: VariableType where "VarFileBirthTime = 17"
definition VarProcessId :: VariableType where "VarProcessId = 18"
definition VarProcessParentId :: VariableType where "VarProcessParentId = 19"
definition VarProcessUserName :: VariableType where "VarProcessUserName = 20"
definition VarProcessUserSid :: VariableType where "VarProcessUserSid = 21"
definition VarProcessSessionId :: VariableType where "VarProcessSessionId = 22"
definition VarProcessName :: VariableType where "VarProcessName = 23"
definition VarProcessPath :: VariableType where "VarProcessPath = 24"
definition VarProcessCommandLine :: VariableType where "VarProcessCommandLine = 25"
definition typeEnd :: VariableType where "typeEnd = 26"

lemmas Var_defs =
  VarOs_def VarOsLinux_def VarOsWindows_def VarOsDarwin_def VarTimeNow_def VarFilePath_def
  VarFileName_def VarFileExtension_def VarFileReadonly_def VarFileHidden_def
  VarFileSystem_def VarFileCompressed_def VarFileEncrypted_def VarFileModifiedTime_def
  VarFileAccessedTime_def VarFileChangedTime_def VarFileBirthTime_def VarProcessId_def
  VarProcessParentId_def VarProcessUserName_def VarProcessUserSid_def
  VarProcessSessionId_def VarProcessName_def VarProcessPath_def VarProcessCommandLine_def

definition MetaBool :: MetaType where "MetaBool = 1"
definition MetaInt :: MetaType where "MetaInt = 2"
definition MetaFloat :: MetaType where "MetaFloat = 4"
definition MetaString :: MetaType where "MetaString = 8"
definition MetaFile :: MetaType where "MetaFile = 16"
definition MetaProcess :: MetaType where "MetaProcess = 32"
definition MetaFileProcess :: MetaType where "MetaFileProcess = MetaFile OR MetaProcess"

lemmas Meta_defs =
  MetaBool_def MetaInt_def MetaFloat_def MetaString_def MetaFile_def MetaProcess_def
  MetaFileProcess_def

text \<open>
  \<^verbatim>\<open>varNames\<close> and \<^verbatim>\<open>varMetas\<close> are arrays of \<^verbatim>\<open>typeEnd\<close> entries indexed by the
  variable; the entry at index 0 is not written in the source and holds the zero value.
\<close>

definition varNames :: "string list" where
  "varNames =
    ['''', ''os'', ''os_linux'', ''os_windows'', ''os_darwin'', ''time_now'', ''file_path'',
     ''file_name'', ''file_extension'', ''file_readonly'', ''file_hidden'', ''file_system'',
     ''file_compressed'', ''file_encrypted'', ''file_modified_time'', ''file_accessed_time'',
     ''file_changed_time'', ''file_birth_time'', ''process_id'', ''process_parent_id'',
     ''process_user_name'', ''process_user_sid'', ''process_session_id'', ''process_name'',
     ''process_path'', ''process_command_line'']"

definition varMetas :: "MetaType list" where
  "varMetas =
    [0,
     MetaFileProcess OR MetaString, MetaFileProcess OR MetaBool, MetaFileProcess OR MetaBool,
     MetaFileProcess OR MetaBool, MetaFileProcess OR MetaInt, MetaFileProcess OR MetaString,
     MetaFileProcess OR MetaString, MetaFileProcess OR MetaString, MetaFileProcess OR MetaBool,
     MetaFileProcess OR MetaBool, MetaFileProcess OR MetaBool, MetaFileProcess OR MetaBool,
     MetaFileProcess OR MetaBool, MetaFileProcess OR MetaInt, MetaFileProcess OR MetaInt,
     MetaFileProcess OR MetaInt, MetaFileProcess OR MetaInt, MetaProcess OR MetaInt,
     MetaProcess OR MetaInt, MetaProcess OR MetaString, MetaProcess OR MetaString,
     MetaProcess OR MetaInt, MetaProcess OR MetaString, MetaProcess OR MetaString,
     MetaProcess OR MetaString]"

text \<open>
  \<^verbatim>\<open>List\<close>: the loop ranges over the slice \<^verbatim>\<open>varNames[1:]\<close> with one loop variable,
  which in Go is the index into that slice (from 0), and appends the index converted to
  a \<^verbatim>\<open>VariableType\<close>.
\<close>

definition List :: "VariableType list" where
  "List = foldl (\<lambda>list v. list @ [word_of_nat v]) [] [0 ..< length (drop 1 varNames)]"

definition String :: "VariableType \<Rightarrow> string" where
  "String v = (if v < typeEnd then varNames ! unat v else '''')"

definition Meta :: "VariableType \<Rightarrow> MetaType" where
  "Meta v = (if v < typeEnd then varMetas ! unat v else 0)"

section \<open>The variable selector\<close>

record Variables =
  list :: "VariableType list"

text \<open>
  \<^verbatim>\<open>setVariables\<close>: the loop carries the list built so far and the set \<^verbatim>\<open>vmap\<close> of
  the identifiers already taken.
\<close>

fun setVariables_loop ::
  "VariableType list \<Rightarrow> MetaType \<Rightarrow> VariableType list \<Rightarrow> (VariableType \<rightharpoonup> unit) \<Rightarrow> VariableType list"
where
  "setVariables_loop [] metaMask lst vmap = lst"
| "setVariables_loop (vid # vars) metaMask lst vmap =
     (if vmap vid \<noteq> None then setVariables_loop vars metaMask lst vmap
      else if Meta vid AND metaMask \<noteq> 0
        then setVariables_loop vars metaMask (lst @ [vid]) (vmap(vid \<mapsto> ()))
      else setVariables_loop vars metaMask lst vmap)"

definition setVariables :: "Variables \<Rightarrow> VariableType list \<Rightarrow> MetaType \<Rightarrow> Variables" where
  "setVariables vr vars metaMask = vr\<lparr>list := setVariables_loop vars metaMask [] Map.empty\<rparr>"

definition InitFileVariables :: "Variables \<Rightarrow> VariableType list \<Rightarrow> Variables" where
  "InitFileVariables vr vars = setVariables vr vars MetaFile"

definition InitProcessVariables :: "Variables \<Rightarrow> VariableType list \<Rightarrow> Variables" where
  "InitProcessVariables vr vars = setVariables vr vars MetaProcess"

section \<open>Values, errors and the calls made to collaborators\<close>

text \<open>
  A non-nil \<^verbatim>\<open>interface{}\<close> handed to the engine holds a boolean, an \<^verbatim>\<open>int64\<close>, a
  \<^verbatim>\<open>float64\<close> (kept as its IEEE-754 bit pattern, so that \<^verbatim>\<open>float64(0)\<close> is the word 0)
  or a string. A nil interface is \<open>None\<close>.
\<close>

datatype gvalue = VBool bool | VInt "64 word" | VFloat "64 word" | VString string

record CompilerMessage =
  Filename :: string
  Line :: int
  Text :: string

text \<open>
  Go errors as values. \<open>ErrExternal\<close> stands for an error made by a collaborator (the
  engine, the operating system, the parser, the scan context); the other constructors are
  the errors this code makes itself, with the errors they wrap.
\<close>

datatype error =
    ErrAlreadyCompiled
  | ErrExternal string
  | ErrUnknownVariable VariableType
  | ErrJoined error error
  | ErrPrefixed string error
  | ErrMore error "CompilerMessage list"
  | ErrNoYaraFiles
  | ErrNotDirOrRegular string
  | ErrInvalidScanTarget "8 word"

text \<open>
  The compiler, the scanner and the scan context are opaque stateful objects. Their state
  is represented by the calls they have received so far, in order; what a call answers
  is a function of that history.
\<close>

datatype event =
    CallDefineVariable string gvalue
  | CallHandleValueError VariableType error
  | CallAddString string string
  | CallAddFile string string

type_synonym VariableDefiner = "event list \<Rightarrow> string \<Rightarrow> gvalue \<Rightarrow> error option"

definition DefineVariable ::
  "VariableDefiner \<Rightarrow> event list \<Rightarrow> string \<Rightarrow> gvalue \<Rightarrow> error option \<times> event list"
where
  "DefineVariable def tr name val = (def tr name val, tr @ [CallDefineVariable name val])"

section \<open>Default values\<close>

definition defineDefaultValue ::
  "VariableType \<Rightarrow> VariableDefiner \<Rightarrow> event list \<Rightarrow> error option \<times> event list"
where
  "defineDefaultValue vid def tr =
     (if Meta vid AND MetaString \<noteq> 0 then DefineVariable def tr (String vid) (VString '''')
      else if Meta vid AND MetaInt \<noteq> 0 then DefineVariable def tr (String vid) (VInt 0)
      else if Meta vid AND MetaBool \<noteq> 0 then DefineVariable def tr (String vid) (VBool False)
      else if Meta vid AND MetaFloat \<noteq> 0 then DefineVariable def tr (String vid) (VFloat 0)
      else (Some (ErrUnknownVariable vid), tr))"

fun DefineCompilerVariables_loop ::
  "VariableType list \<Rightarrow> VariableDefiner \<Rightarrow> event list \<Rightarrow> error option \<times> event list"
where
  "DefineCompilerVariables_loop [] compiler tr = (None, tr)"
| "DefineCompilerVariables_loop (vid # vids) compiler tr =
     (case defineDefaultValue vid compiler tr of
        (Some err, tr') \<Rightarrow> (Some err, tr')
      | (None, tr') \<Rightarrow> DefineCompilerVariables_loop vids compiler tr')"

definition DefineCompilerVariables ::
  "Variables \<Rightarrow> VariableDefiner \<Rightarrow> event list \<Rightarrow> error option \<times> event list"
where
  "DefineCompilerVariables vr compiler tr = DefineCompilerVariables_loop (list vr) compiler tr"

section \<open>Library functions used by the computation routines\<close>

text \<open>
  \<^verbatim>\<open>path/filepath\<close> and \<^verbatim>\<open>strings\<close> of the Go standard library, for a Unix build: the
  separator is the slash and there are no volume names.
\<close>

definition IsPathSeparator :: "char \<Rightarrow> bool" where
  "IsPathSeparator c = (c = CHR ''/'')"

text \<open>
  The inner loop of the \<^verbatim>\<open>..\<close> case of \<^verbatim>\<open>Clean\<close>: the write index goes back to the
  last separator, and not below \<^verbatim>\<open>dotdot\<close>.
\<close>

function backtrack :: "string \<Rightarrow> nat \<Rightarrow> nat \<Rightarrow> nat" where
  "backtrack buf w dotdot =
     (if w > dotdot \<and> \<not> IsPathSeparator (buf ! w) then backtrack buf (w - 1) dotdot else w)"
  by pat_completeness auto
termination
  by (relation "measure (\<lambda>(buf, w, dotdot). w)") auto

declare backtrack.simps [simp del]

function Clean_loop :: "string \<Rightarrow> bool \<Rightarrow> nat \<Rightarrow> string \<Rightarrow> nat \<Rightarrow> string" where
  "Clean_loop path rooted r out dotdot =
     (if r < length path then
        if IsPathSeparator (path ! r) then Clean_loop path rooted (r + 1) out dotdot
        else if path ! r = CHR ''.'' \<and> (r + 1 = length path \<or> IsPathSeparator (path ! (r + 1)))
          then Clean_loop path rooted (r + 1) out dotdot
        else if path ! r = CHR ''.'' \<and> path ! (r + 1) = CHR ''.'' \<and>
                (r + 2 = length path \<or> IsPathSeparator (path ! (r + 2)))
          then
            (if length out > dotdot
               then Clean_loop path rooted (r + 2)
                      (take (backtrack out (length out - 1) dotdot) out) dotdot
             else if \<not> rooted
               then Clean_loop path rooted (r + 2)
                      ((if length out > 0 then out @ ''/'' else out) @ ''..'')
                      (length ((if length out > 0 then out @ ''/'' else out) @ ''..''))
             else Clean_loop path rooted (r + 2) out dotdot)
        else
          Clean_loop path rooted
            (r + length (takeWhile (\<lambda>c. \<not> IsPathSeparator c) (drop r path)))
            ((if rooted \<and> length out \<noteq> 1 \<or> \<not> rooted \<and> length out \<noteq> 0 then out @ ''/'' else out)
               @ takeWhile (\<lambda>c. \<not> IsPathSeparator c) (drop r path))
            dotdot
      else out)"
  by pat_completeness auto
termination
proof (relation "measure (\<lambda>(path, rooted, r, out, dotdot). length path - r)")
  fix path :: string and rooted :: bool and r :: nat and out :: string and dotdot :: nat
  assume r: "r < length path" and sep: "\<not> IsPathSeparator (path ! r)"
  define k where "k = length (takeWhile (\<lambda>c. \<not> IsPathSeparator c) (drop r path))"
  have "drop r path = path ! r # drop (Suc r) path"
    using r by (simp add: Cons_nth_drop_Suc)
  then have pos: "0 < k"
    using sep by (simp add: k_def)
  have le: "k \<le> length path - r"
    using length_takeWhile_le [of "\<lambda>c. \<not> IsPathSeparator c" "drop r path"] by (simp add: k_def)
  have "length path - (r + k) < length path - r"
    using pos le r by arith
  then show "((path, rooted, r + length (takeWhile (\<lambda>c. \<not> IsPathSeparator c) (drop r path)),
                (if rooted \<and> length out \<noteq> 1 \<or> \<not> rooted \<and> length out \<noteq> 0 then out @ ''/'' else out)
                  @ takeWhile (\<lambda>c. \<not> IsPathSeparator c) (drop r path), dotdot),
               (path, rooted, r, out, dotdot))
             \<in> measure (\<lambda>(path, rooted, r, out, dotdot). length path - r)"
    by (simp add: k_def)
qed auto

declare Clean_loop.simps [simp del]

definition Clean :: "string \<Rightarrow> string" where
  "Clean path =
     (if path = '''' then ''.''
      else if IsPathSeparator (path ! 0)
        then (let out = Clean_loop path True 1 ''/'' 1 in if out = '''' then ''.'' else out)
      else (let out = Clean_loop path False 0 '''' 0 in if out = '''' then ''.'' else out))"

definition Base :: "string \<Rightarrow> string" where
  "Base path =
     (if path = '''' then ''.''
      else
        (let stripped = rev (dropWhile IsPathSeparator (rev path));
             lst = rev (takeWhile (\<lambda>c. \<not> IsPathSeparator c) (rev stripped))
         in if lst = '''' then ''/'' else lst))"

text \<open>
  \<^verbatim>\<open>Ext\<close> walks from the end of the path to the last separator and returns the suffix
  that starts at the first dot it meets. The loop takes the reversed path and the suffix
  walked over so far.
\<close>

fun Ext_loop :: "string \<Rightarrow> string \<Rightarrow> string" where
  "Ext_loop [] suffix = ''''"
| "Ext_loop (c # cs) suffix =
     (if IsPathSeparator c then ''''
      else if c = CHR ''.'' then c # suffix
      else Ext_loop cs (c # suffix))"

definition Ext :: "string \<Rightarrow> string" where
  "Ext path = Ext_loop (rev path) ''''"

definition HasPrefix :: "string \<Rightarrow> string \<Rightarrow> bool" where
  "HasPrefix s pre = (take (length pre) s = pre)"

definition TrimPrefix :: "string \<Rightarrow> string \<Rightarrow> string" where
  "TrimPrefix s pre = (if HasPrefix s pre then drop (length pre) s else s)"

text \<open>\<^verbatim>\<open>strings.Count\<close> for a separator of one byte: the number of its occurrences.\<close>

definition Count :: "string \<Rightarrow> char \<Rightarrow> nat" where
  "Count s c = length (filter (\<lambda>x. x = c) s)"

text \<open>
  \<^verbatim>\<open>time.Time.Format\<close> with the layout \<^verbatim>\<open>20060102150405\<close> and \<^verbatim>\<open>strconv.ParseInt\<close> in
  base 10 for 64 bits. A \<^verbatim>\<open>time.Time\<close> is kept as the calendar fields of its local time,
  which are what the layout prints.
\<close>

record Time =
  Year :: int
  Month :: nat
  Day :: nat
  Hour :: nat
  Minute :: nat
  Second :: nat

function decimal :: "nat \<Rightarrow> string" where
  "decimal n =
     (if n < 10 then [char_of (48 + n)] else decimal (n div 10) @ [char_of (48 + n mod 10)])"
  by pat_completeness auto
termination
  by (relation "measure id") auto

declare decimal.simps [simp del]

definition appendInt :: "int \<Rightarrow> nat \<Rightarrow> string" where
  "appendInt x width =
     (if x < 0 then ''-'' else '''')
       @ replicate (width - length (decimal (nat \<bar>x\<bar>))) (CHR ''0'')
       @ decimal (nat \<bar>x\<bar>)"

definition intFileTimeLayout :: "Time \<Rightarrow> string" where
  "intFileTimeLayout t =
     appendInt (Year t) 4 @ appendInt (int (Month t)) 2 @ appendInt (int (Day t)) 2
       @ appendInt (int (Hour t)) 2 @ appendInt (int (Minute t)) 2 @ appendInt (int (Second t)) 2"

definition is_digit :: "char \<Rightarrow> bool" where
  "is_digit c = (48 \<le> (of_char c :: nat) \<and> (of_char c :: nat) \<le> 57)"

definition ParseInt :: "string \<Rightarrow> 64 word \<times> error option" where
  "ParseInt s =
     (let neg = (s \<noteq> '''' \<and> hd s = CHR ''-'');
          ds = (if s \<noteq> '''' \<and> (hd s = CHR ''-'' \<or> hd s = CHR ''+'') then tl s else s)
      in if ds = '''' \<or> \<not> list_all is_digit ds then (0, Some (ErrExternal ''invalid syntax''))
         else
           (let un = foldl (\<lambda>n c. 10 * n + ((of_char c :: nat) - 48)) 0 ds
            in if \<not> neg \<and> un \<ge> 2 ^ 63 then (2 ^ 63 - 1, Some (ErrExternal ''value out of range''))
               else if neg \<and> un > 2 ^ 63 then (- (2 ^ 63), Some (ErrExternal ''value out of range''))
               else (if neg then - word_of_nat un else word_of_nat un, None)))"

section \<open>The scan context\<close>

record Timespec =
  AccessTime :: Time
  HasChangeTime :: bool
  ChangeTime :: Time
  HasBirthTime :: bool
  BirthTime :: Time

text \<open>
  \<^verbatim>\<open>fs.FileInfo\<close>: the mode bits, the modification time, and what \<^verbatim>\<open>times.Get\<close> reads
  from it.
\<close>

record FileInfo =
  Mode :: "32 word"
  ModTime :: Time
  Times :: Timespec

text \<open>
  The methods of \<^verbatim>\<open>ProcessInfo\<close> return a value and an error. The methods that take a
  \<^verbatim>\<open>context.Context\<close> are kept as their results.
\<close>

record ProcessInfo =
  Ppid :: "32 word \<times> error option"
  Username :: "string \<times> error option"
  NameWithContext :: "string \<times> error option"
  CmdlineWithContext :: "string \<times> error option"

text \<open>
  \<^verbatim>\<open>Pid\<close> is a Go \<^verbatim>\<open>int\<close>, 64 bits wide on the builds considered. \<^verbatim>\<open>HandleValueError\<close>
  answers from the calls made so far on the scanner it is handed and on itself.
\<close>

record ScanContext =
  FilePath :: string
  FileInfo :: "FileInfo option"
  Pid :: "64 word"
  ProcessInfo :: "ProcessInfo option"
  HandleValueError :: "event list \<Rightarrow> VariableType \<Rightarrow> error \<Rightarrow> error option"

definition invokeHandleValueError ::
  "ScanContext \<Rightarrow> event list \<Rightarrow> VariableType \<Rightarrow> error \<Rightarrow> error option \<times> event list"
where
  "invokeHandleValueError sCtx tr vid err =
     (HandleValueError sCtx tr vid err, tr @ [CallHandleValueError vid err])"

section \<open>The computation routines\<close>

text \<open>
  A routine returns Go's pair \<^verbatim>\<open>(interface{}, error)\<close>, either of which may be nil.
  \<open>None\<close> for the whole result is a run-time panic (a failed type assertion).
\<close>

type_synonym Value = "gvalue option \<times> error option"
type_synonym Valuer = "ScanContext \<Rightarrow> Value option"

text \<open>
  What the build and the host supply: \<^verbatim>\<open>runtime.GOOS\<close>, the clock, \<^verbatim>\<open>user.Lookup\<close>
  (the \<^verbatim>\<open>Uid\<close> of the user found, or an error), and the routines that live in
  platform-specific files.
\<close>

record Platform =
  GOOS :: string
  Now :: Time
  Lookup :: "string \<Rightarrow> error + string"
  varFileHiddenFunc :: Valuer
  varFileSystemFunc :: Valuer
  varFileCompressedFunc :: Valuer
  varFileEncryptedFunc :: Valuer
  varProcessSessionIdFunc :: Valuer

definition vOsValueWindows :: gvalue where "vOsValueWindows = VString ''windows''"
definition vOsValueLinux :: gvalue where "vOsValueLinux = VString ''linux''"
definition vOsValueDarwin :: gvalue where "vOsValueDarwin = VString ''darwin''"

definition varOsFunc :: "Platform \<Rightarrow> Valuer" where
  "varOsFunc pf sCtx =
     (if GOOS pf = ''windows'' then Some (Some vOsValueWindows, None)
      else if GOOS pf = ''linux'' then Some (Some vOsValueLinux, None)
      else if GOOS pf = ''darwin'' then Some (Some vOsValueDarwin, None)
      else Some (Some (VString (GOOS pf)), None))"

definition noopVarFunc :: Valuer where
  "noopVarFunc sCtx = Some (None, None)"

definition varOsLinuxFunc :: "Platform \<Rightarrow> Valuer" where
  "varOsLinuxFunc pf sCtx = Some (Some (VBool (GOOS pf = ''linux'')), None)"

definition varOsWindowsFunc :: "Platform \<Rightarrow> Valuer" where
  "varOsWindowsFunc pf sCtx = Some (Some (VBool (GOOS pf = ''windows'')), None)"

definition varOsDarwinFunc :: "Platform \<Rightarrow> Valuer" where
  "varOsDarwinFunc pf sCtx = Some (Some (VBool (GOOS pf = ''darwin'')), None)"

definition intTimeHelper :: "Time \<Rightarrow> Value" where
  "intTimeHelper t =
     (case ParseInt (intFileTimeLayout t) of (n, err) \<Rightarrow> (Some (VInt n), err))"

definition varTimeNowFunc :: "Platform \<Rightarrow> Valuer" where
  "varTimeNowFunc pf sCtx = Some (intTimeHelper (Now pf))"

definition varFilePathFunc :: Valuer where
  "varFilePathFunc sCtx =
     (if FilePath sCtx = '''' then Some (Some (VString ''''), None)
      else Some (Some (VString (Clean (FilePath sCtx))), None))"

definition varFileNameFunc :: Valuer where
  "varFileNameFunc sCtx =
     (case varFilePathFunc sCtx of
        None \<Rightarrow> None
      | Some (p, err) \<Rightarrow>
          if err \<noteq> None \<or> p = None then Some (p, err)
          else
            (case p of
               Some (VString s) \<Rightarrow>
                 if s = '''' then Some (p, err)
                 else if Base s = ''.'' then Some (Some (VString ''''), None)
                 else Some (Some (VString (Base s)), None)
             | _ \<Rightarrow> None))"

definition varFileExtensionFunc :: Valuer where
  "varFileExtensionFunc sCtx =
     (case varFilePathFunc sCtx of
        None \<Rightarrow> None
      | Some (p, err) \<Rightarrow>
          (case p of
             Some (VString path) \<Rightarrow>
               if err \<noteq> None \<or> p = None \<or> path = '''' then Some (p, err)
               else if HasPrefix path ''.'' \<and> Count path (CHR ''.'') = 1
                 then Some (Some (VString ''''), None)
               else Some (Some (VString (TrimPrefix (Ext path) ''.'')), None)
           | _ \<Rightarrow> None))"

definition varFileReadonlyFunc :: Valuer where
  "varFileReadonlyFunc sCtx =
     (case FileInfo sCtx of
        None \<Rightarrow> Some (None, None)
      | Some info \<Rightarrow> Some (Some (VBool ((Mode info AND 0x1FF) AND 0x92 = 0)), None))"

definition varFileModifiedTimeFunc :: Valuer where
  "varFileModifiedTimeFunc sCtx =
     (case FileInfo sCtx of
        None \<Rightarrow> Some (None, None)
      | Some info \<Rightarrow> Some (intTimeHelper (ModTime info)))"

definition varFileAccessedTimeFunc :: Valuer where
  "varFileAccessedTimeFunc sCtx =
     (case FileInfo sCtx of
        None \<Rightarrow> Some (None, None)
      | Some info \<Rightarrow> Some (intTimeHelper (AccessTime (Times info))))"

definition varFileChangedTimeFunc :: Valuer where
  "varFileChangedTimeFunc sCtx =
     (case FileInfo sCtx of
        None \<Rightarrow> Some (None, None)
      | Some info \<Rightarrow>
          if HasChangeTime (Times info) then Some (intTimeHelper (ChangeTime (Times info)))
          else Some (None, None))"

definition varFileBirthTimeFunc :: Valuer where
  "varFileBirthTimeFunc sCtx =
     (case FileInfo sCtx of
        None \<Rightarrow> Some (None, None)
      | Some info \<Rightarrow>
          if HasBirthTime (Times info) then Some (intTimeHelper (BirthTime (Times info)))
          else Some (None, None))"

definition varProcessIdFunc :: Valuer where
  "varProcessIdFunc sCtx = Some (Some (VInt (Pid sCtx)), None)"

definition varProcessParentIdFunc :: Valuer where
  "varProcessParentIdFunc sCtx =
     (case ProcessInfo sCtx of
        None \<Rightarrow> Some (None, None)
      | Some proc \<Rightarrow>
          (case Ppid proc of
             (ppid, Some err) \<Rightarrow> Some (None, Some err)
           | (ppid, None) \<Rightarrow> Some (Some (VInt (scast ppid)), None)))"

definition varProcessUserNameFunc :: Valuer where
  "varProcessUserNameFunc sCtx =
     (case ProcessInfo sCtx of
        None \<Rightarrow> Some (None, None)
      | Some proc \<Rightarrow> (case Username proc of (name, err) \<Rightarrow> Some (Some (VString name), err)))"

definition varProcessUserSidFunc :: "Platform \<Rightarrow> Valuer" where
  "varProcessUserSidFunc pf sCtx =
     (case varProcessUserNameFunc sCtx of
        None \<Rightarrow> None
      | Some (uname, Some err) \<Rightarrow> Some (None, Some err)
      | Some (uname, None) \<Rightarrow>
          (case uname of
             Some (VString name) \<Rightarrow>
               if name = '''' then Some (None, None)
               else
                 (case Lookup pf name of
                    Inl err \<Rightarrow> Some (None, Some err)
                  | Inr uid \<Rightarrow> Some (Some (VString uid), None))
           | _ \<Rightarrow> Some (None, None)))"

definition varProcessNameFunc :: Valuer where
  "varProcessNameFunc sCtx =
     (case ProcessInfo sCtx of
        None \<Rightarrow> Some (None, None)
      | Some proc \<Rightarrow>
          (case NameWithContext proc of (name, err) \<Rightarrow> Some (Some (VString name), err)))"

definition varProcessCommandLineFunc :: Valuer where
  "varProcessCommandLineFunc sCtx =
     (case ProcessInfo sCtx of
        None \<Rightarrow> Some (None, None)
      | Some proc \<Rightarrow>
          (case CmdlineWithContext proc of (cmd, err) \<Rightarrow> Some (Some (VString cmd), err)))"

text \<open>
  \<^verbatim>\<open>Valuers\<close> is an array of \<^verbatim>\<open>typeEnd\<close> interface values. The entry at index 0 is
  nil, and a call through it panics, as an index beyond the array does: both are \<open>None\<close>.
\<close>

definition ValuersArray :: "Platform \<Rightarrow> Valuer option list" where
  "ValuersArray pf =
     [None,
      Some (varOsFunc pf), Some (varOsLinuxFunc pf), Some (varOsWindowsFunc pf),
      Some (varOsDarwinFunc pf), Some (varTimeNowFunc pf), Some varFilePathFunc,
      Some varFileNameFunc, Some varFileExtensionFunc, Some varFileReadonlyFunc,
      Some (varFileHiddenFunc pf), Some (varFileSystemFunc pf), Some (varFileCompressedFunc pf),
      Some (varFileEncryptedFunc pf), Some varFileModifiedTimeFunc,
      Some varFileAccessedTimeFunc, Some varFileChangedTimeFunc, Some varFileBirthTimeFunc,
      Some varProcessIdFunc, Some varProcessParentIdFunc, Some varProcessUserNameFunc,
      Some (varProcessUserSidFunc pf), Some (varProcessSessionIdFunc pf),
      Some varProcessNameFunc, Some varFilePathFunc, Some varProcessCommandLineFunc]"

definition Valuers :: "Platform \<Rightarrow> VariableType \<Rightarrow> Valuer option" where
  "Valuers pf vid = (if vid < typeEnd then ValuersArray pf ! unat vid else None)"

section \<open>Defining the computed values\<close>

text \<open>
  \<^verbatim>\<open>DefineScannerVariables\<close> reads the global array \<^verbatim>\<open>Valuers\<close>, which the package
  exports for registration; the loop takes the array as \<open>valuers\<close>. The result is
  \<open>None\<close> when a routine is missing or panics.
\<close>

fun DefineScannerVariables_loop ::
  "(VariableType \<Rightarrow> Valuer option) \<Rightarrow> VariableType list \<Rightarrow> ScanContext \<Rightarrow> VariableDefiner
     \<Rightarrow> event list \<Rightarrow> (error option \<times> event list) option"
where
  "DefineScannerVariables_loop valuers [] sCtx scanner tr = Some (None, tr)"
| "DefineScannerVariables_loop valuers (vid # vids) sCtx scanner tr =
     (case valuers vid of
        None \<Rightarrow> None
      | Some valuer \<Rightarrow>
          (case valuer sCtx of
             None \<Rightarrow> None
           | Some (val, err) \<Rightarrow>
               if err \<noteq> None \<or> val = None then
                 (case defineDefaultValue vid scanner tr of
                    (Some e, tr') \<Rightarrow>
                      (case err of
                         Some er \<Rightarrow> Some (Some (ErrJoined er e), tr')
                       | None \<Rightarrow> Some (Some e, tr'))
                  | (None, tr') \<Rightarrow>
                      (case err of
                         Some er \<Rightarrow>
                           (case invokeHandleValueError sCtx tr' vid er of
                              (Some herr, tr'') \<Rightarrow> Some (Some herr, tr'')
                            | (None, tr'') \<Rightarrow>
                                DefineScannerVariables_loop valuers vids sCtx scanner tr'')
                       | None \<Rightarrow> DefineScannerVariables_loop valuers vids sCtx scanner tr'))
               else
                 (case DefineVariable scanner tr (String vid) (the val) of
                    (Some e, tr') \<Rightarrow> Some (Some e, tr')
                  | (None, tr') \<Rightarrow> DefineScannerVariables_loop valuers vids sCtx scanner tr')))"

definition DefineScannerVariables ::
  "(VariableType \<Rightarrow> Valuer option) \<Rightarrow> Variables \<Rightarrow> ScanContext \<Rightarrow> VariableDefiner
     \<Rightarrow> event list \<Rightarrow> (error option \<times> event list) option"
where
  "DefineScannerVariables valuers vr sCtx scanner tr =
     DefineScannerVariables_loop valuers (list vr) sCtx scanner tr"

section \<open>The orchestrator (gora.go)\<close>

type_synonym ScanTarget = "8 word"

definition ScanFile :: ScanTarget where "ScanFile = 0"
definition ScanProcess :: ScanTarget where "ScanProcess = 1"

text \<open>
  \<^verbatim>\<open>Compiled\<close>: \<^verbatim>\<open>rules\<close> and \<^verbatim>\<open>scanner\<close> are pointers to engine objects, nil until
  they are made.
\<close>

record ('r, 's) Compiled =
  vars :: Variables
  rules :: "'r option"
  scanner :: "'s option"

definition NewCompiled :: "('r, 's) Compiled" where
  "NewCompiled = \<lparr>vars = \<lparr>list = []\<rparr>, rules = None, scanner = None\<rparr>"

record RuleNamespace =
  Rule :: string
  Namespace :: string

text \<open>
  What the parser reads: a string (\<^verbatim>\<open>strings.NewReader\<close>) or the open file of a path.
\<close>

datatype Reader = StringReader string | FileReader string

text \<open>
  \<^verbatim>\<open>variables.Parser\<close> is not part of the sources at hand; it is taken as given, with a
  state \<open>'p\<close>: the fresh parser, what a parse returns and leaves, and the two lists the
  orchestrator reads from it.
\<close>

record 'p Parser =
  NewParser :: 'p
  ParseFromReader :: "'p \<Rightarrow> Reader \<Rightarrow> error option \<times> 'p"
  Includes :: "'p \<Rightarrow> string list"
  ParsedVariables :: "'p \<Rightarrow> VariableType list"

text \<open>
  The engine's compiler. \<^verbatim>\<open>NewCompiler\<close> fails or makes a compiler that has received
  no call; the other fields answer from the calls the compiler has received.
\<close>

record 'r Engine =
  NewCompiler :: "error option"
  CompilerDefineVariable :: VariableDefiner
  AddString :: "event list \<Rightarrow> string \<Rightarrow> string \<Rightarrow> error option"
  AddFile :: "event list \<Rightarrow> string \<Rightarrow> string \<Rightarrow> error option"
  GetRules :: "event list \<Rightarrow> error + 'r"
  Errors :: "event list \<Rightarrow> CompilerMessage list"

text \<open>The file system, as the calls of package \<^verbatim>\<open>os\<close> that the orchestrator makes.\<close>

record FileStat =
  IsDir :: bool
  IsRegular :: bool

record OS =
  Stat :: "string \<Rightarrow> error + FileStat"
  Open :: "string \<Rightarrow> error option"
  StatOpened :: "string \<Rightarrow> error + FileStat"
  Readdirnames :: "string \<Rightarrow> error + string list"

definition compilerError :: "'r Engine \<Rightarrow> event list \<Rightarrow> error \<Rightarrow> error" where
  "compilerError yara tr err =
     (if length (Errors yara tr) > 1 then ErrMore err (drop 1 (Errors yara tr)) else err)"

definition initVariables ::
  "('r, 's) Compiled \<Rightarrow> ScanTarget \<Rightarrow> VariableType list \<Rightarrow> error + ('r, 's) Compiled"
where
  "initVariables c target vs =
     (if target = ScanProcess then Inr (c\<lparr>vars := InitProcessVariables (vars c) vs\<rparr>)
      else if target = ScanFile then Inr (c\<lparr>vars := InitFileVariables (vars c) vs\<rparr>)
      else Inl (ErrInvalidScanTarget target))"

text \<open>
  The first loop of \<^verbatim>\<open>CompileStrings\<close>: every rule is parsed with the one parser, and
  \<^verbatim>\<open>fallbackAllVars\<close> is set once the parser holds an include.
\<close>

fun CompileStrings_parse ::
  "'p Parser \<Rightarrow> 'p \<Rightarrow> bool \<Rightarrow> RuleNamespace list \<Rightarrow> error + ('p \<times> bool)"
where
  "CompileStrings_parse ps parser fallbackAllVars [] = Inr (parser, fallbackAllVars)"
| "CompileStrings_parse ps parser fallbackAllVars (rule # ruleNs) =
     (case ParseFromReader ps parser (StringReader (Rule rule)) of
        (Some err, parser') \<Rightarrow> Inl (ErrPrefixed ''variable parser error'' err)
      | (None, parser') \<Rightarrow>
          CompileStrings_parse ps parser'
            (if length (Includes ps parser') > 0 then True else fallbackAllVars) ruleNs)"

fun CompileStrings_add ::
  "'r Engine \<Rightarrow> event list \<Rightarrow> RuleNamespace list \<Rightarrow> error option \<times> event list"
where
  "CompileStrings_add yara tr [] = (None, tr)"
| "CompileStrings_add yara tr (rule # ruleNs) =
     (case AddString yara tr (Rule rule) (Namespace rule) of
        Some err \<Rightarrow>
          (Some (compilerError yara (tr @ [CallAddString (Rule rule) (Namespace rule)])
                   (ErrPrefixed ''compiler add rule error'' err)),
           tr @ [CallAddString (Rule rule) (Namespace rule)])
      | None \<Rightarrow>
          CompileStrings_add yara (tr @ [CallAddString (Rule rule) (Namespace rule)]) ruleNs)"

definition CompileStrings ::
  "'p Parser \<Rightarrow> 'r Engine \<Rightarrow> ('r, 's) Compiled \<Rightarrow> ScanTarget \<Rightarrow> RuleNamespace list
     \<Rightarrow> error option \<times> ('r, 's) Compiled"
where
  "CompileStrings ps yara c target ruleNs =
     (if rules c \<noteq> None then (Some ErrAlreadyCompiled, c)
      else
        (case NewCompiler yara of
           Some err \<Rightarrow> (Some (ErrPrefixed ''yara compiler error'' err), c)
         | None \<Rightarrow>
             (case CompileStrings_parse ps (NewParser ps) False ruleNs of
                Inl err \<Rightarrow> (Some err, c)
              | Inr (parser, fallbackAllVars) \<Rightarrow>
                  (case initVariables c target
                          (if fallbackAllVars then List else ParsedVariables ps parser) of
                     Inl err \<Rightarrow> (Some err, c)
                   | Inr c1 \<Rightarrow>
                       (case DefineCompilerVariables (vars c1) (CompilerDefineVariable yara) [] of
                          (Some err, tr) \<Rightarrow>
                            (Some (compilerError yara tr
                                     (ErrPrefixed ''compiler define variable error'' err)), c1)
                        | (None, tr) \<Rightarrow>
                            (case CompileStrings_add yara tr ruleNs of
                               (Some err, tr') \<Rightarrow> (Some err, c1)
                             | (None, tr') \<Rightarrow>
                                 (case GetRules yara tr' of
                                    Inl err \<Rightarrow>
                                      (Some (compilerError yara tr'
                                               (ErrPrefixed ''compiler get rules error'' err)),
                                       c1\<lparr>rules := None\<rparr>)
                                  | Inr r \<Rightarrow> (None, c1\<lparr>rules := Some r\<rparr>))))))))"

definition CompileString ::
  "'p Parser \<Rightarrow> 'r Engine \<Rightarrow> ('r, 's) Compiled \<Rightarrow> ScanTarget \<Rightarrow> string \<Rightarrow> string
     \<Rightarrow> error option \<times> ('r, 's) Compiled"
where
  "CompileString ps yara c target rule namespace =
     CompileStrings ps yara c target [\<lparr>Rule = rule, Namespace = namespace\<rparr>]"

text \<open>
  The first loop of \<^verbatim>\<open>CompileFiles\<close>: a path that does not open, or whose open file
  cannot be examined, ends the compilation; a file that is not regular is passed over;
  the others are collected and parsed.
\<close>

fun CompileFiles_parse ::
  "'p Parser \<Rightarrow> OS \<Rightarrow> 'p \<Rightarrow> bool \<Rightarrow> string list \<Rightarrow> string list
     \<Rightarrow> error + ('p \<times> bool \<times> string list)"
where
  "CompileFiles_parse ps os parser fallbackAllVars files [] =
     Inr (parser, fallbackAllVars, files)"
| "CompileFiles_parse ps os parser fallbackAllVars files (path # paths) =
     (case Open os path of
        Some err \<Rightarrow> Inl err
      | None \<Rightarrow>
          (case StatOpened os path of
             Inl err \<Rightarrow> Inl err
           | Inr info \<Rightarrow>
               if \<not> IsRegular info
                 then CompileFiles_parse ps os parser fallbackAllVars files paths
               else
                 (case ParseFromReader ps parser (FileReader path) of
                    (Some err, parser') \<Rightarrow> Inl (ErrPrefixed ''variable parser error'' err)
                  | (None, parser') \<Rightarrow>
                      CompileFiles_parse ps os parser'
                        (if length (Includes ps parser') > 0 then True else fallbackAllVars)
                        (files @ [path]) paths)))"

fun compileFiles_add ::
  "'r Engine \<Rightarrow> event list \<Rightarrow> string list \<Rightarrow> bool \<Rightarrow> error option \<times> event list"
where
  "compileFiles_add yara tr [] filenameNS = (None, tr)"
| "compileFiles_add yara tr (file # files) filenameNS =
     (case AddFile yara tr file (if filenameNS then Base file else '''') of
        Some err \<Rightarrow>
          (Some (compilerError yara
                   (tr @ [CallAddFile file (if filenameNS then Base file else '''')])
                   (ErrPrefixed ''compiler add rule error'' err)),
           tr @ [CallAddFile file (if filenameNS then Base file else '''')])
      | None \<Rightarrow>
          compileFiles_add yara
            (tr @ [CallAddFile file (if filenameNS then Base file else '''')]) files filenameNS)"

definition compileFiles ::
  "'r Engine \<Rightarrow> event list \<Rightarrow> string list \<Rightarrow> bool \<Rightarrow> 'r option \<times> error option"
where
  "compileFiles yara tr files filenameNS =
     (case compileFiles_add yara tr files filenameNS of
        (Some err, tr') \<Rightarrow> (None, Some err)
      | (None, tr') \<Rightarrow>
          (case GetRules yara tr' of
             Inl err \<Rightarrow>
               (None, Some (compilerError yara tr' (ErrPrefixed ''compiler get rules error'' err)))
           | Inr r \<Rightarrow> (Some r, None)))"

definition CompileFiles ::
  "'p Parser \<Rightarrow> 'r Engine \<Rightarrow> OS \<Rightarrow> ('r, 's) Compiled \<Rightarrow> ScanTarget \<Rightarrow> bool \<Rightarrow> string list
     \<Rightarrow> error option \<times> ('r, 's) Compiled"
where
  "CompileFiles ps yara os c target filenameNS paths =
     (if rules c \<noteq> None then (Some ErrAlreadyCompiled, c)
      else
        (case NewCompiler yara of
           Some err \<Rightarrow> (Some (ErrPrefixed ''compiler error'' err), c)
         | None \<Rightarrow>
             (case CompileFiles_parse ps os (NewParser ps) False [] paths of
                Inl err \<Rightarrow> (Some err, c)
              | Inr (parser, fallbackAllVars, files) \<Rightarrow>
                  (case initVariables c target
                          (if fallbackAllVars then List else ParsedVariables ps parser) of
                     Inl err \<Rightarrow> (Some err, c)
                   | Inr c1 \<Rightarrow>
                       (case DefineCompilerVariables (vars c1) (CompilerDefineVariable yara) [] of
                          (Some err, tr) \<Rightarrow>
                            (Some (compilerError yara tr
                                     (ErrPrefixed ''compiler define variable error'' err)), c1)
                        | (None, tr) \<Rightarrow>
                            (case compileFiles yara tr files filenameNS of
                               (r, err) \<Rightarrow> (err, c1\<lparr>rules := r\<rparr>)))))))"

text \<open>
  \<^verbatim>\<open>strings.EqualFold\<close> against \<^verbatim>\<open>.yar\<close> and \<^verbatim>\<open>.yara\<close>, whose letters fold only with
  their ASCII capitals; \<^verbatim>\<open>filepath.Join\<close> of a directory and a name.
\<close>

definition ToLower :: "char \<Rightarrow> char" where
  "ToLower c =
     (if 65 \<le> (of_char c :: nat) \<and> (of_char c :: nat) \<le> 90 then char_of ((of_char c :: nat) + 32)
      else c)"

definition EqualFold :: "string \<Rightarrow> string \<Rightarrow> bool" where
  "EqualFold s t = (map ToLower s = map ToLower t)"

definition Join :: "string \<Rightarrow> string \<Rightarrow> string" where
  "Join dir name =
     (if dir = '''' \<and> name = '''' then ''''
      else if dir = '''' then Clean name
      else if name = '''' then Clean dir
      else Clean (dir @ ''/'' @ name))"

definition CompileDir_paths :: "string \<Rightarrow> string list \<Rightarrow> string list" where
  "CompileDir_paths dir names =
     map (Join dir)
       (filter (\<lambda>name. EqualFold (Ext name) ''.yar'' \<or> EqualFold (Ext name) ''.yara'') names)"

definition CompileDir ::
  "'p Parser \<Rightarrow> 'r Engine \<Rightarrow> OS \<Rightarrow> ('r, 's) Compiled \<Rightarrow> ScanTarget \<Rightarrow> bool \<Rightarrow> string
     \<Rightarrow> error option \<times> ('r, 's) Compiled"
where
  "CompileDir ps yara os c target filenameNS dir =
     (if rules c \<noteq> None then (Some ErrAlreadyCompiled, c)
      else
        (case Open os dir of
           Some err \<Rightarrow> (Some err, c)
         | None \<Rightarrow>
             (case Readdirnames os dir of
                Inl err \<Rightarrow> (Some err, c)
              | Inr names \<Rightarrow>
                  if length (CompileDir_paths dir names) = 0 then (Some ErrNoYaraFiles, c)
                  else CompileFiles ps yara os c target filenameNS (CompileDir_paths dir names))))"

definition CompileFileOrDir ::
  "'p Parser \<Rightarrow> 'r Engine \<Rightarrow> OS \<Rightarrow> ('r, 's) Compiled \<Rightarrow> ScanTarget \<Rightarrow> bool \<Rightarrow> string
     \<Rightarrow> error option \<times> ('r, 's) Compiled"
where
  "CompileFileOrDir ps yara os c target filenameNS path =
     (if rules c \<noteq> None then (Some ErrAlreadyCompiled, c)
      else
        (case Stat os path of
           Inl err \<Rightarrow> (Some err, c)
         | Inr info \<Rightarrow>
             if IsDir info then CompileDir ps yara os c target filenameNS path
             else if IsRegular info then CompileFiles ps yara os c target filenameNS [path]
             else (Some (ErrNotDirOrRegular path), c)))"

section \<open>Specification-level definitions\<close>

text \<open>
  The selector as the specification words it: duplicates are dropped, the first
  occurrence winning, and the identifiers whose metadata meets the target mask are kept.
\<close>

fun dedupFirst :: "'a list \<Rightarrow> 'a list" where
  "dedupFirst [] = []"
| "dedupFirst (x # xs) = x # dedupFirst (removeAll x xs)"

definition Build_spec :: "VariableType list \<Rightarrow> MetaType \<Rightarrow> VariableType list" where
  "Build_spec candidates targetMask =
     filter (\<lambda>v. Meta v AND targetMask \<noteq> 0) (dedupFirst candidates)"

text \<open>
  The zero value of the specification: the empty string, the integer 0, false or the
  float 0.0, by the value-type bit of the metadata; none when no such bit is set.
\<close>

definition zeroValue :: "MetaType \<Rightarrow> gvalue option" where
  "zeroValue meta =
     (if meta AND MetaString \<noteq> 0 then Some (VString '''')
      else if meta AND MetaInt \<noteq> 0 then Some (VInt 0)
      else if meta AND MetaBool \<noteq> 0 then Some (VBool False)
      else if meta AND MetaFloat \<noteq> 0 then Some (VFloat 0)
      else None)"

text \<open>
  The calls that define the zero values of a list of identifiers, in the order of the
  list.
\<close>

definition defaultCalls :: "VariableType list \<Rightarrow> event list" where
  "defaultCalls vids =
     concat (map (\<lambda>vid. case zeroValue (Meta vid) of
                          None \<Rightarrow> []
                        | Some z \<Rightarrow> [CallDefineVariable (String vid) z]) vids)"

section \<open>Collaborators for concrete inputs\<close>

text \<open>An acceptor that takes every definition, and one that rejects a given name.\<close>

definition acceptAll :: VariableDefiner where
  "acceptAll tr name val = None"

definition rejectName :: "string \<Rightarrow> VariableDefiner" where
  "rejectName bad tr name val = (if name = bad then Some (ErrExternal ''rejected'') else None)"

text \<open>
  A scan context of a file scan (no process introspection) whose hook lets every failure
  pass, and a platform whose platform-specific routines do nothing.
\<close>

definition ignoreValueError :: "event list \<Rightarrow> VariableType \<Rightarrow> error \<Rightarrow> error option" where
  "ignoreValueError tr vid err = None"

definition fileScanContext :: "string \<Rightarrow> ScanContext" where
  "fileScanContext path =
     \<lparr>FilePath = path, FileInfo = None, Pid = 42, ProcessInfo = None,
      HandleValueError = ignoreValueError\<rparr>"

definition noSuchUser :: "string \<Rightarrow> error + string" where
  "noSuchUser name = Inl (ErrExternal ''unknown user'')"

definition linuxPlatform :: Platform where
  "linuxPlatform =
     \<lparr>GOOS = ''linux'',
      Now = \<lparr>Year = 2024, Month = 1, Day = 2, Hour = 3, Minute = 4, Second = 5\<rparr>,
      Lookup = noSuchUser,
      varFileHiddenFunc = noopVarFunc, varFileSystemFunc = noopVarFunc,
      varFileCompressedFunc = noopVarFunc, varFileEncryptedFunc = noopVarFunc,
      varProcessSessionIdFunc = noopVarFunc\<rparr>"

text \<open>
  A parser whose state is the includes and the identifiers seen so far: the source text
  \<^verbatim>\<open>include\<close> is an include directive, and any other text refers to \<^verbatim>\<open>file_name\<close>.
  An engine that accepts every call and whose rule set is the list of the calls its
  compiler received. A file system in which every path is a regular file.
\<close>

definition exampleParse ::
  "string list \<times> VariableType list \<Rightarrow> Reader \<Rightarrow> error option \<times> (string list \<times> VariableType list)"
where
  "exampleParse p rd =
     (if rd = StringReader ''include'' then (None, (fst p @ [''other.yar''], snd p))
      else (None, (fst p, snd p @ [VarFileName])))"

definition exampleParser :: "(string list \<times> VariableType list) Parser" where
  "exampleParser =
     \<lparr>NewParser = ([], []), ParseFromReader = exampleParse, Includes = fst,
      ParsedVariables = snd\<rparr>"

definition acceptSource :: "event list \<Rightarrow> string \<Rightarrow> string \<Rightarrow> error option" where
  "acceptSource tr src namespace = None"

definition rulesOfCalls :: "event list \<Rightarrow> error + event list" where
  "rulesOfCalls tr = Inr tr"

definition noMessages :: "event list \<Rightarrow> CompilerMessage list" where
  "noMessages tr = []"

definition exampleEngine :: "event list Engine" where
  "exampleEngine =
     \<lparr>NewCompiler = None, CompilerDefineVariable = acceptAll, AddString = acceptSource,
      AddFile = acceptSource, GetRules = rulesOfCalls, Errors = noMessages\<rparr>"

definition regularFile :: "string \<Rightarrow> error + FileStat" where
  "regularFile path = Inr \<lparr>IsDir = False, IsRegular = True\<rparr>"

definition opens :: "string \<Rightarrow> error option" where
  "opens path = None"

definition notADirectory :: "string \<Rightarrow> error + string list" where
  "notADirectory path = Inl (ErrExternal ''not a directory'')"

definition exampleOS :: OS where
  "exampleOS =
     \<lparr>Stat = regularFile, Open = opens, StatOpened = regularFile, Readdirnames = notADirectory\<rparr>"

text \<open>
  The calls of the failure hook that a pass over a list of identifiers owes: one for
  each identifier whose routine returns an error, in the order of the list.
\<close>

definition isHandleValueError :: "event \<Rightarrow> bool" where
  "isHandleValueError ev = (case ev of CallHandleValueError vid err \<Rightarrow> True | _ \<Rightarrow> False)"

definition failureCalls ::
  "(VariableType \<Rightarrow> Valuer option) \<Rightarrow> ScanContext \<Rightarrow> VariableType list \<Rightarrow> event list"
where
  "failureCalls valuers sCtx vids =
     concat (map (\<lambda>vid. case valuers vid of
                          None \<Rightarrow> []
                        | Some valuer \<Rightarrow>
                            (case valuer sCtx of
                               Some (val, Some er) \<Rightarrow> [CallHandleValueError vid er]
                             | _ \<Rightarrow> [])) vids)"

text \<open>
  A scan context of a process scan whose process introspection cannot give the parent
  pid, with a hook of the caller's choice, and a hook that makes every failure fatal.
\<close>

definition escalateValueError :: "event list \<Rightarrow> VariableType \<Rightarrow> error \<Rightarrow> error option" where
  "escalateValueError tr vid err = Some err"

definition failingProcess :: ProcessInfo where
  "failingProcess =
     \<lparr>Ppid = (0, Some (ErrExternal ''no such process'')), Username = (''root'', None),
      NameWithContext = (''init'', None), CmdlineWithContext = (''/sbin/init'', None)\<rparr>"

definition processScanContext ::
  "(event list \<Rightarrow> VariableType \<Rightarrow> error \<Rightarrow> error option) \<Rightarrow> ScanContext"
where
  "processScanContext hook =
     \<lparr>FilePath = ''/sbin/init'', FileInfo = None, Pid = 1, ProcessInfo = Some failingProcess,
      HandleValueError = hook\<rparr>"

section \<open>The registry and the selector: properties\<close>

lemma dedupFirst_filter: "dedupFirst (filter Q xs) = filter Q (dedupFirst xs)"
proof (induction xs rule: dedupFirst.induct)
  case 1
  then show ?case by simp
next
  case (2 x xs)
  have comm: "removeAll x (filter Q xs) = filter Q (removeAll x xs)"
    by (induction xs) auto
  show ?case
  proof (cases "Q x")
    case True
    then show ?thesis using 2 by (simp add: comm)
  next
    case False
    then have "filter Q (removeAll x xs) = filter Q xs"
      by (induction xs) auto
    then show ?thesis using 2 False by simp
  qed
qed

lemma set_dedupFirst: "set (dedupFirst xs) = set xs"
  by (induction xs rule: dedupFirst.induct) auto

lemma distinct_dedupFirst: "distinct (dedupFirst xs)"
  by (induction xs rule: dedupFirst.induct) (auto simp: set_dedupFirst)

text \<open>
  The loop of \<^verbatim>\<open>setVariables\<close>, started with any list and the map that holds exactly
  its elements.
\<close>

lemma setVariables_loop_eq:
  "dom vmap = set lst \<Longrightarrow>
   setVariables_loop vs m lst vmap =
     lst @ dedupFirst (filter (\<lambda>v. Meta v AND m \<noteq> 0 \<and> v \<notin> set lst) vs)"
proof (induction vs arbitrary: lst vmap)
  case Nil
  then show ?case by simp
next
  case (Cons v vs)
  show ?case
  proof (cases "v \<in> set lst")
    case True
    then have "vmap v \<noteq> None" using Cons.prems by auto
    then show ?thesis using Cons True by simp
  next
    case False
    then have none: "vmap v = None" using Cons.prems by auto
    show ?thesis
    proof (cases "Meta v AND m \<noteq> 0")
      case True
      have d: "dom (vmap(v \<mapsto> ())) = set (lst @ [v])" using Cons.prems by auto
      have f: "removeAll v (filter (\<lambda>u. Meta u AND m \<noteq> 0 \<and> u \<notin> set lst) vs)
                = filter (\<lambda>u. Meta u AND m \<noteq> 0 \<and> u \<noteq> v \<and> u \<notin> set lst) vs"
        by (induction vs) auto
      have "setVariables_loop (v # vs) m lst vmap
              = setVariables_loop vs m (lst @ [v]) (vmap(v \<mapsto> ()))"
        using none True by simp
      also have "\<dots> = (lst @ [v]) @ dedupFirst
                  (filter (\<lambda>u. Meta u AND m \<noteq> 0 \<and> u \<notin> set (lst @ [v])) vs)"
        by (rule Cons.IH [OF d])
      also have "\<dots> = lst @ dedupFirst
                  (filter (\<lambda>u. Meta u AND m \<noteq> 0 \<and> u \<notin> set lst) (v # vs))"
        using True False by (simp add: f)
      finally show ?thesis .
    next
      case F2: False
      then show ?thesis using Cons.IH [OF Cons.prems] none False by simp
    qed
  qed
qed

lemma setVariables_Build_spec: "list (setVariables vr vs m) = Build_spec vs m"
  by (simp add: setVariables_def Build_spec_def setVariables_loop_eq dedupFirst_filter)

lemma Meta_VarOs: "Meta VarOs = 56"
  by (simp add: Meta_def VarOs_def typeEnd_def varMetas_def Meta_defs)

lemma Meta_VarProcessId: "Meta VarProcessId = 34"
  by (simp add: Meta_def VarProcessId_def typeEnd_def varMetas_def Meta_defs)

lemma Meta_VarFilePath: "Meta VarFilePath = 56"
  by (simp add: Meta_def VarFilePath_def typeEnd_def varMetas_def Meta_defs)

lemma Meta_VarProcessCommandLine: "Meta VarProcessCommandLine = 40"
  by (simp add: Meta_def VarProcessCommandLine_def typeEnd_def varMetas_def Meta_defs)

lemma List_eq:
  "List = [0, 1, 2, 3, 4, 5, 6, 7, 8, 9, 10, 11, 12, 13, 14, 15, 16, 17, 18, 19, 20, 21, 22,
           23, 24]"
  by code_simp

text \<open>
  C1. \<^verbatim>\<open>List\<close> is documented to return all available variables: the identifiers 1 to
  25 (\<^verbatim>\<open>process_command_line\<close>), without the reserved 0. The loop appends the index into
  \<^verbatim>\<open>varNames[1:]\<close> instead of the identifier, so what it returns is 0 to 24: the reserved
  0 is in the list and \<^verbatim>\<open>VarProcessCommandLine\<close> is not.
\<close>

theorem List_shifted_by_one:
  "List = map word_of_nat [0 ..< 25]
   \<and> (0 :: VariableType) \<in> set List
   \<and> VarProcessCommandLine \<notin> set List
   \<and> String VarProcessCommandLine = ''process_command_line''
   \<and> String 0 = ''''"
proof -
  have "map word_of_nat [0 ..< 25] = List"
    unfolding List_eq by (simp add: upt_rec)
  moreover have "(0 :: VariableType) \<in> set List" "VarProcessCommandLine \<notin> set List"
    unfolding List_eq by (simp_all add: VarProcessCommandLine_def)
  moreover have "String VarProcessCommandLine = ''process_command_line''" "String 0 = ''''"
    by (simp_all add: String_def VarProcessCommandLine_def typeEnd_def varNames_def)
  ultimately show ?thesis by simp
qed

text \<open>
  C3. Building the selector (\<^verbatim>\<open>InitFileVariables\<close>, \<^verbatim>\<open>InitProcessVariables\<close>, both
  through \<^verbatim>\<open>setVariables\<close>) yields exactly the candidates whose metadata meets the
  target mask, without duplicates, each at the place of its first occurrence in the
  input. For candidates \<open>[X, X, Y]\<close> with \<open>X\<close> for processes only and \<open>Y\<close> for both
  targets, the file build is \<open>[Y]\<close> and the process build is \<open>[X, Y]\<close>.
\<close>

theorem setVariables_selects:
  "list (InitFileVariables vr vs) = Build_spec vs MetaFile
   \<and> list (InitProcessVariables vr vs) = Build_spec vs MetaProcess
   \<and> list (setVariables vr vs m) = dedupFirst (filter (\<lambda>v. Meta v AND m \<noteq> 0) vs)
   \<and> distinct (list (setVariables vr vs m))
   \<and> set (list (setVariables vr vs m)) = {v \<in> set vs. Meta v AND m \<noteq> 0}
   \<and> (Meta X AND MetaFile = 0 \<and> Meta X AND MetaProcess \<noteq> 0 \<and>
      Meta Y AND MetaFile \<noteq> 0 \<and> Meta Y AND MetaProcess \<noteq> 0 \<longrightarrow>
        list (InitFileVariables vr [X, X, Y]) = [Y] \<and>
        list (InitProcessVariables vr [X, X, Y]) = [X, Y])"
proof -
  have a: "list (setVariables vr vs m) = dedupFirst (filter (\<lambda>v. Meta v AND m \<noteq> 0) vs)"
    by (simp add: setVariables_def setVariables_loop_eq)
  have b: "distinct (list (setVariables vr vs m))"
    by (simp add: a distinct_dedupFirst)
  have c: "set (list (setVariables vr vs m)) = {v \<in> set vs. Meta v AND m \<noteq> 0}"
    by (auto simp: a set_dedupFirst)
  have d: "list (InitFileVariables vr [X, X, Y]) = [Y] \<and>
           list (InitProcessVariables vr [X, X, Y]) = [X, Y]"
    if "Meta X AND MetaFile = 0" "Meta X AND MetaProcess \<noteq> 0"
       "Meta Y AND MetaFile \<noteq> 0" "Meta Y AND MetaProcess \<noteq> 0"
  proof -
    have "X \<noteq> Y" using that by auto
    then show ?thesis
      using that by (simp add: InitFileVariables_def InitProcessVariables_def setVariables_def)
  qed
  show ?thesis
    using a b c d
    by (simp add: InitFileVariables_def InitProcessVariables_def setVariables_Build_spec)
qed

theorem setVariables_selects_witness:
  "list (InitFileVariables \<lparr>list = []\<rparr> [VarProcessId, VarProcessId, VarOs]) = [VarOs]
   \<and> list (InitProcessVariables \<lparr>list = []\<rparr> [VarProcessId, VarProcessId, VarOs])
       = [VarProcessId, VarOs]
   \<and> Meta VarProcessId AND MetaFile = 0 \<and> Meta VarProcessId AND MetaProcess \<noteq> 0
   \<and> Meta VarOs AND MetaFile \<noteq> 0 \<and> Meta VarOs AND MetaProcess \<noteq> 0"
  using setVariables_selects [of "\<lparr>list = []\<rparr>" "[]" 0 VarProcessId VarOs]
  by (simp add: Meta_VarOs Meta_VarProcessId Meta_defs)

section \<open>Default values: properties\<close>

lemma defineDefaultValue_zeroValue:
  "defineDefaultValue vid def tr =
     (case zeroValue (Meta vid) of
        None \<Rightarrow> (Some (ErrUnknownVariable vid), tr)
      | Some z \<Rightarrow> (def tr (String vid) z, tr @ [CallDefineVariable (String vid) z]))"
  by (simp add: defineDefaultValue_def zeroValue_def DefineVariable_def)

lemma zeroValue_None_iff:
  "zeroValue m = None \<longleftrightarrow> m AND (MetaString OR MetaInt OR MetaBool OR MetaFloat) = 0"
  by (simp add: zeroValue_def bit.conj_disj_distrib or_eq_0_iff)

lemma defaultCalls_append: "defaultCalls (xs @ ys) = defaultCalls xs @ defaultCalls ys"
  by (simp add: defaultCalls_def)

lemma defaultCalls_Nil: "defaultCalls [] = []"
  by (simp add: defaultCalls_def)

lemma defaultCalls_Cons:
  "defaultCalls (v # vs) =
     (case zeroValue (Meta v) of None \<Rightarrow> [] | Some z \<Rightarrow> [CallDefineVariable (String v) z])
       @ defaultCalls vs"
  by (simp add: defaultCalls_def)

lemma defineDefaultValue_None:
  "defineDefaultValue v def tr = (None, tr1) \<Longrightarrow>
     zeroValue (Meta v) \<noteq> None \<and> tr1 = tr @ defaultCalls [v]"
  by (auto simp: defineDefaultValue_zeroValue defaultCalls_Cons defaultCalls_Nil
           split: option.splits)

lemma defaults_loop_None:
  "DefineCompilerVariables_loop vs def tr = (None, tr') \<Longrightarrow>
     tr' = tr @ defaultCalls vs \<and> (\<forall>v \<in> set vs. zeroValue (Meta v) \<noteq> None)"
proof (induction vs arbitrary: tr)
  case Nil
  then show ?case by (simp add: defaultCalls_Nil)
next
  case (Cons v vs)
  obtain r tr1 where d: "defineDefaultValue v def tr = (r, tr1)"
    by (cases "defineDefaultValue v def tr")
  have r: "r = None" using Cons.prems d by (cases r) simp_all
  then have run: "DefineCompilerVariables_loop vs def tr1 = (None, tr')"
    using Cons.prems d by simp
  have one: "zeroValue (Meta v) \<noteq> None" "tr1 = tr @ defaultCalls [v]"
    using defineDefaultValue_None d r by blast+
  have "tr' = tr1 @ defaultCalls vs" "\<forall>v \<in> set vs. zeroValue (Meta v) \<noteq> None"
    using Cons.IH [OF run] by simp_all
  then show ?case
    using one defaultCalls_append [of "[v]" vs] by simp
qed

lemma defaults_loop_Some:
  "DefineCompilerVariables_loop vs def tr = (Some e, tr') \<Longrightarrow>
     \<exists>pre v post. vs = pre @ v # post
        \<and> DefineCompilerVariables_loop pre def tr = (None, tr @ defaultCalls pre)
        \<and> defineDefaultValue v def (tr @ defaultCalls pre) = (Some e, tr')"
proof (induction vs arbitrary: tr)
  case Nil
  then show ?case by simp
next
  case (Cons v vs)
  obtain r tr1 where d: "defineDefaultValue v def tr = (r, tr1)" by (cases "defineDefaultValue v def tr")
  show ?case
  proof (cases r)
    case None
    then have run: "DefineCompilerVariables_loop vs def tr1 = (Some e, tr')"
      using Cons.prems d by simp
    have tr1: "tr1 = tr @ defaultCalls [v]"
      using defineDefaultValue_None d None by blast
    obtain pre w post where p: "vs = pre @ w # post"
        "DefineCompilerVariables_loop pre def tr1 = (None, tr1 @ defaultCalls pre)"
        "defineDefaultValue w def (tr1 @ defaultCalls pre) = (Some e, tr')"
      using Cons.IH [OF run] by blast
    have "v # vs = (v # pre) @ w # post" using p by simp
    moreover have "DefineCompilerVariables_loop (v # pre) def tr = (None, tr @ defaultCalls (v # pre))"
      using p(2) d None tr1 defaultCalls_append [of "[v]" pre] by simp
    moreover have "defineDefaultValue w def (tr @ defaultCalls (v # pre)) = (Some e, tr')"
      using p(3) tr1 defaultCalls_append [of "[v]" pre] by simp
    ultimately show ?thesis by blast
  next
    case (Some e')
    then have "e' = e" "tr1 = tr'" using Cons.prems d by simp_all
    then have "v # vs = [] @ v # vs \<and> DefineCompilerVariables_loop [] def tr = (None, tr @ defaultCalls [])
        \<and> defineDefaultValue v def (tr @ defaultCalls []) = (Some e, tr')"
      using d Some by (simp add: defaultCalls_Nil)
    then show ?thesis by blast
  qed
qed

lemma defaults_loop_stop:
  "DefineCompilerVariables_loop pre def tr = (None, tr1) \<Longrightarrow>
   defineDefaultValue v def tr1 = (Some e, tr2) \<Longrightarrow>
   DefineCompilerVariables_loop (pre @ v # post) def tr = (Some e, tr2)"
proof (induction pre arbitrary: tr)
  case Nil
  then show ?case by simp
next
  case (Cons p pre)
  then show ?case
    by (cases "defineDefaultValue p def tr") (auto split: option.splits)
qed

lemma defaults_loop_all:
  "\<forall>v \<in> set vs. zeroValue (Meta v) \<noteq> None \<Longrightarrow> \<forall>evs n z. def evs n z = None \<Longrightarrow>
   DefineCompilerVariables_loop vs def tr = (None, tr @ defaultCalls vs)"
proof (induction vs arbitrary: tr)
  case Nil
  then show ?case by (simp add: defaultCalls_Nil)
next
  case (Cons v vs)
  obtain z where z: "zeroValue (Meta v) = Some z" using Cons.prems(1) by auto
  have d: "defineDefaultValue v def tr = (None, tr @ [CallDefineVariable (String v) z])"
    using z Cons.prems(2) by (simp add: defineDefaultValue_zeroValue)
  have "DefineCompilerVariables_loop vs def (tr @ [CallDefineVariable (String v) z])
          = (None, (tr @ [CallDefineVariable (String v) z]) @ defaultCalls vs)"
  proof (rule Cons.IH)
    show "\<forall>v \<in> set vs. zeroValue (Meta v) \<noteq> None" using Cons.prems(1) by simp
    show "\<forall>evs n z. def evs n z = None" by (rule Cons.prems(2))
  qed
  then show ?case using d z by (simp add: defaultCalls_Cons)
qed

text \<open>
  C7. \<^verbatim>\<open>DefineCompilerVariables\<close> defines, for each selected identifier in selector
  order, the zero value that the identifier's metadata gives (empty string, integer 0,
  false, float 0.0) under the identifier's name. The first error ends the run: it is
  returned, no later identifier is processed and the definitions made before it stay.
  An identifier whose metadata has none of the four value-type bits gives the
  unknown-variable error.
\<close>

theorem DefineCompilerVariables_defaults:
  "(zeroValue (Meta vid) = Some z \<longrightarrow>
      defineDefaultValue vid def tr
        = (def tr (String vid) z, tr @ [CallDefineVariable (String vid) z]))
   \<and> (Meta vid AND (MetaString OR MetaInt OR MetaBool OR MetaFloat) = 0 \<longrightarrow>
      defineDefaultValue vid def tr = (Some (ErrUnknownVariable vid), tr))
   \<and> ((\<forall>v \<in> set (list vr). zeroValue (Meta v) \<noteq> None) \<and> (\<forall>evs n x. def evs n x = None) \<longrightarrow>
      DefineCompilerVariables vr def tr = (None, tr @ defaultCalls (list vr)))
   \<and> (DefineCompilerVariables vr def tr = (None, tr') \<longrightarrow>
      tr' = tr @ defaultCalls (list vr) \<and> (\<forall>v \<in> set (list vr). zeroValue (Meta v) \<noteq> None))
   \<and> (DefineCompilerVariables vr def tr = (Some e, tr') \<longrightarrow>
      (\<exists>pre v post. list vr = pre @ v # post
         \<and> DefineCompilerVariables \<lparr>list = pre\<rparr> def tr = (None, tr @ defaultCalls pre)
         \<and> defineDefaultValue v def (tr @ defaultCalls pre) = (Some e, tr')))
   \<and> (DefineCompilerVariables \<lparr>list = before\<rparr> def tr = (None, tr1) \<and>
      defineDefaultValue failing def tr1 = (Some e, tr2) \<longrightarrow>
      DefineCompilerVariables \<lparr>list = before @ failing # later\<rparr> def tr = (Some e, tr2))"
proof -
  have a: "zeroValue (Meta vid) = Some z \<longrightarrow>
      defineDefaultValue vid def tr
        = (def tr (String vid) z, tr @ [CallDefineVariable (String vid) z])"
    by (simp add: defineDefaultValue_zeroValue)
  have b: "Meta vid AND (MetaString OR MetaInt OR MetaBool OR MetaFloat) = 0 \<longrightarrow>
      defineDefaultValue vid def tr = (Some (ErrUnknownVariable vid), tr)"
    using zeroValue_None_iff [of "Meta vid"] by (auto simp: defineDefaultValue_zeroValue)
  have c: "(\<forall>v \<in> set (list vr). zeroValue (Meta v) \<noteq> None) \<and> (\<forall>evs n x. def evs n x = None) \<longrightarrow>
      DefineCompilerVariables vr def tr = (None, tr @ defaultCalls (list vr))"
    using defaults_loop_all [of "list vr" "def" tr] by (simp add: DefineCompilerVariables_def)
  have d: "DefineCompilerVariables vr def tr = (None, tr') \<longrightarrow>
      tr' = tr @ defaultCalls (list vr) \<and> (\<forall>v \<in> set (list vr). zeroValue (Meta v) \<noteq> None)"
    using defaults_loop_None [of "list vr" "def" tr tr'] by (simp add: DefineCompilerVariables_def)
  have e: "DefineCompilerVariables vr def tr = (Some e, tr') \<longrightarrow>
      (\<exists>pre v post. list vr = pre @ v # post
         \<and> DefineCompilerVariables \<lparr>list = pre\<rparr> def tr = (None, tr @ defaultCalls pre)
         \<and> defineDefaultValue v def (tr @ defaultCalls pre) = (Some e, tr'))"
    using defaults_loop_Some [of "list vr" "def" tr e tr'] by (simp add: DefineCompilerVariables_def)
  have f: "DefineCompilerVariables \<lparr>list = before\<rparr> def tr = (None, tr1) \<and>
      defineDefaultValue failing def tr1 = (Some e, tr2) \<longrightarrow>
      DefineCompilerVariables \<lparr>list = before @ failing # later\<rparr> def tr = (Some e, tr2)"
    using defaults_loop_stop [of before "def" tr tr1 failing e tr2 later]
    by (simp add: DefineCompilerVariables_def)
  show ?thesis using a b c d e f by blast
qed

theorem DefineCompilerVariables_defaults_witness:
  "DefineCompilerVariables \<lparr>list = [VarOs, VarTimeNow, VarOsLinux]\<rparr> acceptAll []
     = (None, [CallDefineVariable ''os'' (VString ''''), CallDefineVariable ''time_now'' (VInt 0),
               CallDefineVariable ''os_linux'' (VBool False)])
   \<and> DefineCompilerVariables \<lparr>list = [VarOs, VarFilePath, VarFileName]\<rparr>
        (rejectName ''file_path'') []
     = (Some (ErrExternal ''rejected''),
        [CallDefineVariable ''os'' (VString ''''), CallDefineVariable ''file_path'' (VString '''')])
   \<and> defineDefaultValue 0 acceptAll [] = (Some (ErrUnknownVariable 0), [])"
proof -
  have h1: "\<forall>v \<in> set (list \<lparr>list = [VarOs, VarTimeNow, VarOsLinux]\<rparr>). zeroValue (Meta v) \<noteq> None"
    by code_simp
  have h2: "\<forall>evs n x. acceptAll evs n x = None"
    by (simp add: acceptAll_def)
  have c1: "[] @ defaultCalls (list \<lparr>list = [VarOs, VarTimeNow, VarOsLinux]\<rparr>)
      = [CallDefineVariable ''os'' (VString ''''), CallDefineVariable ''time_now'' (VInt 0),
         CallDefineVariable ''os_linux'' (VBool False)]"
    by code_simp
  have "DefineCompilerVariables \<lparr>list = [VarOs, VarTimeNow, VarOsLinux]\<rparr> acceptAll []
     = (None, [] @ defaultCalls (list \<lparr>list = [VarOs, VarTimeNow, VarOsLinux]\<rparr>))"
    using DefineCompilerVariables_defaults
            [where def = acceptAll and tr = "[]"
               and vr = "\<lparr>list = [VarOs, VarTimeNow, VarOsLinux]\<rparr>"] h1 h2
    by blast
  then have w1: "DefineCompilerVariables \<lparr>list = [VarOs, VarTimeNow, VarOsLinux]\<rparr> acceptAll []
     = (None, [CallDefineVariable ''os'' (VString ''''), CallDefineVariable ''time_now'' (VInt 0),
               CallDefineVariable ''os_linux'' (VBool False)])"
    unfolding c1 .
  have h3: "DefineCompilerVariables \<lparr>list = [VarOs]\<rparr> (rejectName ''file_path'') []
      = (None, [CallDefineVariable ''os'' (VString '''')])"
    by code_simp
  have h4: "defineDefaultValue VarFilePath (rejectName ''file_path'')
              [CallDefineVariable ''os'' (VString '''')]
      = (Some (ErrExternal ''rejected''),
         [CallDefineVariable ''os'' (VString ''''), CallDefineVariable ''file_path'' (VString '''')])"
    by code_simp
  have c2: "[VarOs] @ VarFilePath # [VarFileName] = [VarOs, VarFilePath, VarFileName]"
    by simp
  have "DefineCompilerVariables \<lparr>list = [VarOs] @ VarFilePath # [VarFileName]\<rparr>
        (rejectName ''file_path'') []
     = (Some (ErrExternal ''rejected''),
        [CallDefineVariable ''os'' (VString ''''), CallDefineVariable ''file_path'' (VString '''')])"
    using DefineCompilerVariables_defaults
            [where def = "rejectName ''file_path''" and tr = "[]" and before = "[VarOs]"
               and ?tr1.0 = "[CallDefineVariable ''os'' (VString '''')]"
               and failing = VarFilePath and e = "ErrExternal ''rejected''"
               and ?tr2.0 = "[CallDefineVariable ''os'' (VString ''''),
                              CallDefineVariable ''file_path'' (VString '''')]"
               and later = "[VarFileName]"]
          h3 h4
    by blast
  then have w2: "DefineCompilerVariables \<lparr>list = [VarOs, VarFilePath, VarFileName]\<rparr>
        (rejectName ''file_path'') []
     = (Some (ErrExternal ''rejected''),
        [CallDefineVariable ''os'' (VString ''''), CallDefineVariable ''file_path'' (VString '''')])"
    unfolding c2 .
  have h5: "Meta 0 AND (MetaString OR MetaInt OR MetaBool OR MetaFloat) = 0"
    by code_simp
  have w3: "defineDefaultValue 0 acceptAll [] = (Some (ErrUnknownVariable 0), [])"
    using DefineCompilerVariables_defaults [where vid = 0 and def = acceptAll and tr = "[]"] h5
    by blast
  show ?thesis using w1 w2 w3 by (intro conjI)
qed

section \<open>The computation routines: properties\<close>

lemma Valuers_VarFilePath: "Valuers pf VarFilePath = Some varFilePathFunc"
  by (simp add: Valuers_def ValuersArray_def VarFilePath_def typeEnd_def)

lemma Valuers_VarProcessPath: "Valuers pf VarProcessPath = Some varFilePathFunc"
  by (simp add: Valuers_def ValuersArray_def VarProcessPath_def typeEnd_def)

lemma Valuers_VarProcessId: "Valuers pf VarProcessId = Some varProcessIdFunc"
  by (simp add: Valuers_def ValuersArray_def VarProcessId_def typeEnd_def)

lemma Valuers_VarProcessParentId: "Valuers pf VarProcessParentId = Some varProcessParentIdFunc"
  by (simp add: Valuers_def ValuersArray_def VarProcessParentId_def typeEnd_def)

lemma Valuers_VarProcessUserName: "Valuers pf VarProcessUserName = Some varProcessUserNameFunc"
  by (simp add: Valuers_def ValuersArray_def VarProcessUserName_def typeEnd_def)

lemma Valuers_VarProcessName: "Valuers pf VarProcessName = Some varProcessNameFunc"
  by (simp add: Valuers_def ValuersArray_def VarProcessName_def typeEnd_def)

lemma Valuers_VarProcessCommandLine:
  "Valuers pf VarProcessCommandLine = Some varProcessCommandLineFunc"
  by (simp add: Valuers_def ValuersArray_def VarProcessCommandLine_def typeEnd_def)

lemma varFilePathFunc_eq:
  "varFilePathFunc sCtx =
     Some (Some (VString (if FilePath sCtx = '''' then '''' else Clean (FilePath sCtx))), None)"
  by (simp add: varFilePathFunc_def)

text \<open>
  C9. The routine registered for the process-path variable is the routine of the
  file-path variable, so both compute the same value from a scan context: the cleaned
  file path, or the empty string when the context has no path.
\<close>

theorem process_path_is_file_path:
  "Valuers pf VarProcessPath = Valuers pf VarFilePath
   \<and> Valuers pf VarFilePath = Some varFilePathFunc
   \<and> varFilePathFunc sCtx =
       Some (Some (VString (if FilePath sCtx = '''' then '''' else Clean (FilePath sCtx))), None)"
  by (simp add: Valuers_VarFilePath Valuers_VarProcessPath varFilePathFunc_eq)

text \<open>
  C10. The file-path routine always returns a string and no error. The file-name and
  file-extension routines therefore never panic on their type assertions, and what they
  return is a string with no error as well.
\<close>

theorem varFilePathFunc_string:
  "(\<exists>s. varFilePathFunc sCtx = Some (Some (VString s), None))
   \<and> varFileNameFunc sCtx \<noteq> None
   \<and> varFileExtensionFunc sCtx \<noteq> None
   \<and> (\<exists>n. varFileNameFunc sCtx = Some (Some (VString n), None))
   \<and> (\<exists>x. varFileExtensionFunc sCtx = Some (Some (VString x), None))"
  by (simp add: varFilePathFunc_eq varFileNameFunc_def varFileExtensionFunc_def)

theorem varFilePathFunc_string_witness:
  "(\<exists>s. varFilePathFunc (fileScanContext ''/tmp/a.txt'') = Some (Some (VString s), None))
   \<and> varFileNameFunc (fileScanContext ''/tmp/a.txt'') \<noteq> None
   \<and> varFileExtensionFunc (fileScanContext ''/tmp/a.txt'') \<noteq> None"
  using varFilePathFunc_string [of "fileScanContext ''/tmp/a.txt''"] by simp

text \<open>
  C6, as the code has it. When the scan context has no process introspection, the
  routines of the parent pid, the user name, the process name and the command line
  return \<open>(nil, nil)\<close>. The routine of the pid does not consult the process
  introspection: it returns the pid of the scan context. The routine of the process
  path is the file-path routine and returns the path string.
\<close>

theorem process_routines_without_ProcessInfo:
  "ProcessInfo sCtx = None \<Longrightarrow>
     Valuers pf VarProcessParentId = Some varProcessParentIdFunc
   \<and> varProcessParentIdFunc sCtx = Some (None, None)
   \<and> Valuers pf VarProcessUserName = Some varProcessUserNameFunc
   \<and> varProcessUserNameFunc sCtx = Some (None, None)
   \<and> Valuers pf VarProcessName = Some varProcessNameFunc
   \<and> varProcessNameFunc sCtx = Some (None, None)
   \<and> Valuers pf VarProcessCommandLine = Some varProcessCommandLineFunc
   \<and> varProcessCommandLineFunc sCtx = Some (None, None)
   \<and> Valuers pf VarProcessId = Some varProcessIdFunc
   \<and> varProcessIdFunc sCtx = Some (Some (VInt (Pid sCtx)), None)
   \<and> Valuers pf VarProcessPath = Some varFilePathFunc
   \<and> varFilePathFunc sCtx =
       Some (Some (VString (if FilePath sCtx = '''' then '''' else Clean (FilePath sCtx))), None)"
  by (simp add: Valuers_VarProcessParentId Valuers_VarProcessUserName Valuers_VarProcessName
        Valuers_VarProcessCommandLine Valuers_VarProcessId Valuers_VarProcessPath
        varProcessParentIdFunc_def varProcessUserNameFunc_def varProcessNameFunc_def
        varProcessCommandLineFunc_def varProcessIdFunc_def varFilePathFunc_eq)

theorem process_routines_without_ProcessInfo_witness:
  "ProcessInfo (fileScanContext '''') = None
   \<and> varProcessParentIdFunc (fileScanContext '''') = Some (None, None)
   \<and> varProcessUserNameFunc (fileScanContext '''') = Some (None, None)
   \<and> varProcessNameFunc (fileScanContext '''') = Some (None, None)
   \<and> varProcessCommandLineFunc (fileScanContext '''') = Some (None, None)
   \<and> varProcessIdFunc (fileScanContext '''') = Some (Some (VInt 42), None)
   \<and> varFilePathFunc (fileScanContext '''') = Some (Some (VString ''''), None)"
proof -
  have h: "ProcessInfo (fileScanContext '''') = None"
    by (simp add: fileScanContext_def)
  show ?thesis
    using process_routines_without_ProcessInfo [OF h, of linuxPlatform] h
    by (simp add: fileScanContext_def)
qed

theorem process_id_without_ProcessInfo_counterexample:
  "ProcessInfo (fileScanContext '''') = None
   \<and> Valuers linuxPlatform VarProcessId = Some varProcessIdFunc
   \<and> varProcessIdFunc (fileScanContext '''') = Some (Some (VInt 42), None)
   \<and> varProcessIdFunc (fileScanContext '''') \<noteq> Some (None, None)
   \<and> Valuers linuxPlatform VarProcessPath = Some varFilePathFunc
   \<and> varFilePathFunc (fileScanContext '''') = Some (Some (VString ''''), None)
   \<and> varFilePathFunc (fileScanContext '''') \<noteq> Some (None, None)"
  by (simp add: Valuers_VarProcessId Valuers_VarProcessPath varProcessIdFunc_def
        varFilePathFunc_def fileScanContext_def)

lemma varFileExtensionFunc_eq:
  "varFileExtensionFunc sCtx =
     (if FilePath sCtx = '''' then Some (Some (VString ''''), None)
      else if HasPrefix (Clean (FilePath sCtx)) ''.'' \<and> Count (Clean (FilePath sCtx)) (CHR ''.'') = 1
        then Some (Some (VString ''''), None)
      else Some (Some (VString (TrimPrefix (Ext (Clean (FilePath sCtx))) ''.'')), None))"
proof -
  have "Clean p \<noteq> ''''" for p
    by (simp add: Clean_def Let_def)
  then show ?thesis
    by (simp add: varFileExtensionFunc_def varFilePathFunc_def)
qed

text \<open>
  C4. For the paths \<^verbatim>\<open>archive.tar.gz\<close>, \<^verbatim>\<open>.gitignore\<close> and \<^verbatim>\<open>README\<close> the
  file-extension routine returns \<^verbatim>\<open>gz\<close>, the empty string and the empty string. The
  test for a dotfile is made on the whole cleaned path, not on its base name: for
  \<^verbatim>\<open>dir/.gitignore\<close>, whose base name \<^verbatim>\<open>.gitignore\<close> starts with a dot and has one
  dot, the routine returns \<^verbatim>\<open>gitignore\<close>, not the empty string.
\<close>

theorem varFileExtensionFunc_dotfile_in_directory:
  "(FilePath sCtx = ''dir/.gitignore'' \<longrightarrow>
      varFileExtensionFunc sCtx = Some (Some (VString ''gitignore''), None)
      \<and> Base (Clean (FilePath sCtx)) = ''.gitignore''
      \<and> HasPrefix (Base (Clean (FilePath sCtx))) ''.''
      \<and> Count (Base (Clean (FilePath sCtx))) (CHR ''.'') = 1)
   \<and> (FilePath sCtx = ''archive.tar.gz'' \<longrightarrow>
      varFileExtensionFunc sCtx = Some (Some (VString ''gz''), None))
   \<and> (FilePath sCtx = ''.gitignore'' \<longrightarrow>
      varFileExtensionFunc sCtx = Some (Some (VString ''''), None))
   \<and> (FilePath sCtx = ''README'' \<longrightarrow>
      varFileExtensionFunc sCtx = Some (Some (VString ''''), None))"
proof -
  have a: "Clean ''dir/.gitignore'' = ''dir/.gitignore''"
    by code_simp
  have b: "\<not> HasPrefix ''dir/.gitignore'' ''.''"
          "TrimPrefix (Ext ''dir/.gitignore'') ''.'' = ''gitignore''"
          "Base ''dir/.gitignore'' = ''.gitignore''"
          "HasPrefix ''.gitignore'' ''.''"
          "Count ''.gitignore'' (CHR ''.'') = 1"
    by code_simp+
  have c: "Clean ''archive.tar.gz'' = ''archive.tar.gz''"
          "\<not> HasPrefix ''archive.tar.gz'' ''.''"
          "TrimPrefix (Ext ''archive.tar.gz'') ''.'' = ''gz''"
    by code_simp+
  have d: "Clean ''.gitignore'' = ''.gitignore''"
    by code_simp
  have e: "Clean ''README'' = ''README''"
          "\<not> HasPrefix ''README'' ''.''"
          "TrimPrefix (Ext ''README'') ''.'' = ''''"
    by code_simp+
  show ?thesis
    by (simp add: varFileExtensionFunc_eq a b c d e)
qed

theorem varFileExtensionFunc_dotfile_in_directory_witness:
  "FilePath (fileScanContext ''dir/.gitignore'') = ''dir/.gitignore''
   \<and> varFileExtensionFunc (fileScanContext ''dir/.gitignore'')
       = Some (Some (VString ''gitignore''), None)
   \<and> Base (Clean (FilePath (fileScanContext ''dir/.gitignore''))) = ''.gitignore''
   \<and> varFileExtensionFunc (fileScanContext ''archive.tar.gz'') = Some (Some (VString ''gz''), None)
   \<and> varFileExtensionFunc (fileScanContext ''.gitignore'') = Some (Some (VString ''''), None)
   \<and> varFileExtensionFunc (fileScanContext ''README'') = Some (Some (VString ''''), None)"
  using varFileExtensionFunc_dotfile_in_directory [of "fileScanContext ''dir/.gitignore''"]
        varFileExtensionFunc_dotfile_in_directory [of "fileScanContext ''archive.tar.gz''"]
        varFileExtensionFunc_dotfile_in_directory [of "fileScanContext ''.gitignore''"]
        varFileExtensionFunc_dotfile_in_directory [of "fileScanContext ''README''"]
  by (simp add: fileScanContext_def)

section \<open>The orchestrator: properties\<close>

text \<open>
  C8. Once the instance holds a compiled rule set, every compile operation
  (\<^verbatim>\<open>CompileString\<close>, \<^verbatim>\<open>CompileStrings\<close>, \<^verbatim>\<open>CompileFiles\<close>, \<^verbatim>\<open>CompileFileOrDir\<close>,
  \<^verbatim>\<open>CompileDir\<close>) returns the already-compiled error and leaves the instance as it was:
  the rule set, the selector and the scanner.
\<close>

theorem compile_when_already_compiled:
  "rules c \<noteq> None \<Longrightarrow>
     CompileString ps yara c target rule namespace = (Some ErrAlreadyCompiled, c)
   \<and> CompileStrings ps yara c target ruleNs = (Some ErrAlreadyCompiled, c)
   \<and> CompileFiles ps yara os c target filenameNS paths = (Some ErrAlreadyCompiled, c)
   \<and> CompileFileOrDir ps yara os c target filenameNS path = (Some ErrAlreadyCompiled, c)
   \<and> CompileDir ps yara os c target filenameNS path = (Some ErrAlreadyCompiled, c)"
  by (simp add: CompileString_def CompileStrings_def CompileFiles_def CompileFileOrDir_def
        CompileDir_def)

lemma example_first_compile:
  "CompileString exampleParser exampleEngine (NewCompiled :: (event list, unit) Compiled)
       ScanFile ''rule r { condition: true }'' ''ns''
     = (None,
        \<lparr>vars = \<lparr>list = [VarFileName]\<rparr>,
         rules = Some [CallDefineVariable ''file_name'' (VString ''''),
                       CallAddString ''rule r { condition: true }'' ''ns''],
         scanner = None\<rparr>)"
  by code_simp

theorem compile_when_already_compiled_witness:
  "(case CompileString exampleParser exampleEngine (NewCompiled :: (event list, unit) Compiled)
           ScanFile ''rule r { condition: true }'' ''ns'' of
      (err, c) \<Rightarrow>
        err = None \<and> rules c \<noteq> None
        \<and> CompileString exampleParser exampleEngine c ScanProcess ''rule s { condition: true }'' ''''
            = (Some ErrAlreadyCompiled, c)
        \<and> CompileStrings exampleParser exampleEngine c ScanFile [] = (Some ErrAlreadyCompiled, c)
        \<and> CompileFiles exampleParser exampleEngine exampleOS c ScanFile True [''a.yar'']
            = (Some ErrAlreadyCompiled, c)
        \<and> CompileFileOrDir exampleParser exampleEngine exampleOS c ScanFile True ''a.yar''
            = (Some ErrAlreadyCompiled, c)
        \<and> CompileDir exampleParser exampleEngine exampleOS c ScanFile True ''rules''
            = (Some ErrAlreadyCompiled, c))"
proof -
  define c :: "(event list, unit) Compiled" where
    "c = \<lparr>vars = \<lparr>list = [VarFileName]\<rparr>,
          rules = Some [CallDefineVariable ''file_name'' (VString ''''),
                        CallAddString ''rule r { condition: true }'' ''ns''],
          scanner = None\<rparr>"
  have h: "rules c \<noteq> None" by (simp add: c_def)
  show ?thesis
    unfolding example_first_compile
    using h
      compile_when_already_compiled [OF h, of exampleParser exampleEngine ScanProcess
        "''rule s { condition: true }''" "''''"]
      compile_when_already_compiled [OF h, of exampleParser exampleEngine ScanFile _ _ "[]"
        exampleOS True "[''a.yar'']" "''a.yar''"]
      compile_when_already_compiled [OF h, of exampleParser exampleEngine ScanFile _ _ _
        exampleOS True _ "''rules''"]
    by (simp add: c_def)
qed

lemma Build_spec_List_MetaProcess:
  "Build_spec List MetaProcess =
     [VarOs, VarOsLinux, VarOsWindows, VarOsDarwin, VarTimeNow, VarFilePath, VarFileName,
      VarFileExtension, VarFileReadonly, VarFileHidden, VarFileSystem, VarFileCompressed,
      VarFileEncrypted, VarFileModifiedTime, VarFileAccessedTime, VarFileChangedTime,
      VarFileBirthTime, VarProcessId, VarProcessParentId, VarProcessUserName,
      VarProcessUserSid, VarProcessSessionId, VarProcessName, VarProcessPath]"
  by code_simp

lemma vars_CompileStrings_fallback:
  assumes "rules c = None" and "NewCompiler yara = None"
    and "CompileStrings_parse ps (NewParser ps) False ruleNs = Inr (parser, True)"
  shows "list (vars (snd (CompileStrings ps yara c ScanProcess ruleNs)))
           = Build_spec List MetaProcess"
  using assms
  by (simp add: CompileStrings_def initVariables_def InitProcessVariables_def
        setVariables_Build_spec split: prod.splits option.splits sum.splits)

text \<open>
  C5. When the parse of a rule source reports an include, the candidates handed to the
  selector are what \<^verbatim>\<open>List\<close> returns. That is not the whole catalogue: the
  identifiers 0 to 24. For a process scan the selector built from them holds the
  identifiers 1 to 24 and lacks \<^verbatim>\<open>VarProcessCommandLine\<close>, which applies to process
  scans.
\<close>

theorem include_fallback_misses_command_line:
  "rules c = None \<and> NewCompiler yara = None
   \<and> ParseFromReader ps (NewParser ps) (StringReader rule) = (None, parser)
   \<and> Includes ps parser \<noteq> [] \<longrightarrow>
     list (vars (snd (CompileString ps yara c ScanProcess rule namespace)))
       = Build_spec List MetaProcess
     \<and> VarProcessCommandLine \<notin>
         set (list (vars (snd (CompileString ps yara c ScanProcess rule namespace))))
     \<and> Meta VarProcessCommandLine AND MetaProcess \<noteq> 0"
proof -
  have notin: "VarProcessCommandLine \<notin> set (Build_spec List MetaProcess)"
    unfolding Build_spec_List_MetaProcess by (simp add: Var_defs)
  have applies: "Meta VarProcessCommandLine AND MetaProcess \<noteq> 0"
    by (simp add: Meta_VarProcessCommandLine MetaProcess_def)
  show ?thesis
  proof (intro impI)
    assume h: "rules c = None \<and> NewCompiler yara = None
      \<and> ParseFromReader ps (NewParser ps) (StringReader rule) = (None, parser)
      \<and> Includes ps parser \<noteq> []"
    then have "CompileStrings_parse ps (NewParser ps) False [\<lparr>Rule = rule, Namespace = namespace\<rparr>]
                 = Inr (parser, True)"
      by simp
    then have "list (vars (snd (CompileString ps yara c ScanProcess rule namespace)))
                 = Build_spec List MetaProcess"
      using h vars_CompileStrings_fallback [of c yara ps _ parser]
      by (simp add: CompileString_def)
    then show "list (vars (snd (CompileString ps yara c ScanProcess rule namespace)))
       = Build_spec List MetaProcess
     \<and> VarProcessCommandLine \<notin>
         set (list (vars (snd (CompileString ps yara c ScanProcess rule namespace))))
     \<and> Meta VarProcessCommandLine AND MetaProcess \<noteq> 0"
      using notin applies by simp
  qed
qed

theorem include_fallback_misses_command_line_witness:
  "rules (NewCompiled :: (event list, unit) Compiled) = None
   \<and> NewCompiler exampleEngine = None
   \<and> ParseFromReader exampleParser (NewParser exampleParser) (StringReader ''include'')
       = (None, ([''other.yar''], []))
   \<and> Includes exampleParser ([''other.yar''], []) \<noteq> []
   \<and> VarProcessCommandLine \<notin>
       set (list (vars (snd (CompileString exampleParser exampleEngine
                               (NewCompiled :: (event list, unit) Compiled)
                               ScanProcess ''include'' ''''))))"
proof -
  have h: "rules (NewCompiled :: (event list, unit) Compiled) = None
      \<and> NewCompiler exampleEngine = None
      \<and> ParseFromReader exampleParser (NewParser exampleParser) (StringReader ''include'')
          = (None, ([''other.yar''], []))
      \<and> Includes exampleParser ([''other.yar''], []) \<noteq> []"
    by (simp add: NewCompiled_def exampleEngine_def exampleParser_def exampleParse_def)
  show ?thesis
    using h include_fallback_misses_command_line
            [of "NewCompiled :: (event list, unit) Compiled" exampleEngine exampleParser
                "''include''" "([''other.yar''], [])" "''''"]
    by blast
qed

section \<open>Defining the computed values: properties\<close>

lemma scan_step_default_fails:
  assumes "valuers vid = Some valuer" and "valuer sCtx = Some (val, err)"
    and "err \<noteq> None \<or> val = None"
    and "defineDefaultValue vid scn tr = (Some e, tr1)"
  shows "DefineScannerVariables_loop valuers (vid # vids) sCtx scn tr
           = Some (Some (case err of None \<Rightarrow> e | Some er \<Rightarrow> ErrJoined er e), tr1)"
  using assms by (cases err) auto

lemma scan_step_hook:
  assumes "valuers vid = Some valuer" and "valuer sCtx = Some (val, Some er)"
    and "zeroValue (Meta vid) = Some z" and "scn tr (String vid) z = None"
  shows "DefineScannerVariables_loop valuers (vid # vids) sCtx scn tr
           = (case HandleValueError sCtx (tr @ [CallDefineVariable (String vid) z]) vid er of
                Some herr \<Rightarrow>
                  Some (Some herr,
                        tr @ [CallDefineVariable (String vid) z, CallHandleValueError vid er])
              | None \<Rightarrow>
                  DefineScannerVariables_loop valuers vids sCtx scn
                    (tr @ [CallDefineVariable (String vid) z, CallHandleValueError vid er]))"
  using assms
  by (simp add: defineDefaultValue_zeroValue invokeHandleValueError_def split: option.splits)

lemma scan_step_nil:
  assumes "valuers vid = Some valuer" and "valuer sCtx = Some (None, None)"
    and "zeroValue (Meta vid) = Some z" and "scn tr (String vid) z = None"
  shows "DefineScannerVariables_loop valuers (vid # vids) sCtx scn tr
           = DefineScannerVariables_loop valuers vids sCtx scn
               (tr @ [CallDefineVariable (String vid) z])"
  using assms by (simp add: defineDefaultValue_zeroValue)

lemma scan_step_value:
  assumes "valuers vid = Some valuer" and "valuer sCtx = Some (Some v, None)"
  shows "DefineScannerVariables_loop valuers (vid # vids) sCtx scn tr
           = (case scn tr (String vid) v of
                Some e \<Rightarrow> Some (Some e, tr @ [CallDefineVariable (String vid) v])
              | None \<Rightarrow>
                  DefineScannerVariables_loop valuers vids sCtx scn
                    (tr @ [CallDefineVariable (String vid) v]))"
  using assms by (simp add: DefineVariable_def split: option.splits)

lemma failureCalls_Nil: "failureCalls valuers sCtx [] = []"
  by (simp add: failureCalls_def)

lemma failureCalls_Cons:
  "failureCalls valuers sCtx (vid # vids) =
     (case valuers vid of
        None \<Rightarrow> []
      | Some valuer \<Rightarrow>
          (case valuer sCtx of
             Some (val, Some er) \<Rightarrow> [CallHandleValueError vid er]
           | _ \<Rightarrow> []))
       @ failureCalls valuers sCtx vids"
  by (simp add: failureCalls_def)

lemma scan_loop_hooks:
  "DefineScannerVariables_loop valuers vids sCtx scn tr = Some (None, tr') \<Longrightarrow>
     \<exists>new. tr' = tr @ new \<and> filter isHandleValueError new = failureCalls valuers sCtx vids"
proof (induction vids arbitrary: tr)
  case Nil
  then show ?case by (simp add: failureCalls_Nil)
next
  case (Cons vid vids)
  obtain valuer where v: "valuers vid = Some valuer"
    using Cons.prems by (cases "valuers vid") simp_all
  obtain val err where r: "valuer sCtx = Some (val, err)"
    using Cons.prems v by (cases "valuer sCtx") auto
  show ?case
  proof (cases err)
    case (Some er)
    obtain d tr1 where d: "defineDefaultValue vid scn tr = (d, tr1)"
      by (cases "defineDefaultValue vid scn tr")
    have dn: "d = None" using Cons.prems d Some v r by (cases d) simp_all
    obtain z where z: "zeroValue (Meta vid) = Some z" "tr1 = tr @ [CallDefineVariable (String vid) z]"
      using d dn by (auto simp: defineDefaultValue_zeroValue split: option.splits)
    have sc: "scn tr (String vid) z = None"
      using d dn z by (simp add: defineDefaultValue_zeroValue)
    have run: "DefineScannerVariables_loop valuers vids sCtx scn
                 (tr @ [CallDefineVariable (String vid) z, CallHandleValueError vid er])
               = Some (None, tr')"
      using Cons.prems v r Some z(1) sc
        scan_step_hook [where valuers = valuers and vid = vid and valuer = valuer and sCtx = sCtx and scn = scn and tr = tr and vids = vids and val = val and er = er and z = z]
      by (auto split: option.splits)
    obtain new where n: "tr' = (tr @ [CallDefineVariable (String vid) z, CallHandleValueError vid er]) @ new"
        "filter isHandleValueError new = failureCalls valuers sCtx vids"
      using Cons.IH [OF run] by blast
    have "tr' = tr @ ([CallDefineVariable (String vid) z, CallHandleValueError vid er] @ new)"
      using n(1) by simp
    moreover have "filter isHandleValueError ([CallDefineVariable (String vid) z, CallHandleValueError vid er] @ new)
        = failureCalls valuers sCtx (vid # vids)"
      using n(2) v r Some by (simp add: failureCalls_Cons isHandleValueError_def)
    ultimately show ?thesis by blast
  next
    case None
    show ?thesis
    proof (cases val)
      case N2: None
      obtain d tr1 where d: "defineDefaultValue vid scn tr = (d, tr1)"
        by (cases "defineDefaultValue vid scn tr")
      have dn: "d = None" using Cons.prems d None N2 v r by (cases d) simp_all
      obtain z where z: "zeroValue (Meta vid) = Some z" "tr1 = tr @ [CallDefineVariable (String vid) z]"
        using d dn by (auto simp: defineDefaultValue_zeroValue split: option.splits)
      have sc: "scn tr (String vid) z = None"
        using d dn z by (simp add: defineDefaultValue_zeroValue)
      have run: "DefineScannerVariables_loop valuers vids sCtx scn
                   (tr @ [CallDefineVariable (String vid) z]) = Some (None, tr')"
        using Cons.prems v r None N2 z(1) sc
          scan_step_nil [where valuers = valuers and vid = vid and valuer = valuer and sCtx = sCtx and scn = scn and tr = tr and vids = vids and z = z]
        by simp
      obtain new where n: "tr' = (tr @ [CallDefineVariable (String vid) z]) @ new"
          "filter isHandleValueError new = failureCalls valuers sCtx vids"
        using Cons.IH [OF run] by blast
      have "tr' = tr @ ([CallDefineVariable (String vid) z] @ new)"
        using n(1) by simp
      moreover have "filter isHandleValueError ([CallDefineVariable (String vid) z] @ new)
          = failureCalls valuers sCtx (vid # vids)"
        using n(2) v r None N2 by (simp add: failureCalls_Cons isHandleValueError_def)
      ultimately show ?thesis by blast
    next
      case (Some x)
      have run: "DefineScannerVariables_loop valuers vids sCtx scn
                   (tr @ [CallDefineVariable (String vid) x]) = Some (None, tr')"
        using Cons.prems v r None Some
          scan_step_value [where valuers = valuers and vid = vid and valuer = valuer and sCtx = sCtx and scn = scn and tr = tr and vids = vids and v = x]
        by (auto split: option.splits)
      obtain new where n: "tr' = (tr @ [CallDefineVariable (String vid) x]) @ new"
          "filter isHandleValueError new = failureCalls valuers sCtx vids"
        using Cons.IH [OF run] by blast
      have "tr' = tr @ ([CallDefineVariable (String vid) x] @ new)"
        using n(1) by simp
      moreover have "filter isHandleValueError ([CallDefineVariable (String vid) x] @ new)
          = failureCalls valuers sCtx (vid # vids)"
        using n(2) v r None Some by (simp add: failureCalls_Cons isHandleValueError_def)
      ultimately show ?thesis by blast
    qed
  qed
qed
text \<open>
  C2. \<^verbatim>\<open>DefineScannerVariables\<close> goes through the selector once, in order. For the
  identifier at the head: when its routine returns an error or a nil value, the zero
  value of the identifier is defined into the scanner; if that definition fails, its
  error is returned at once, joined with the routine's error when there is one; if it
  succeeds and the routine returned an error, \<^verbatim>\<open>HandleValueError\<close> is called once with
  the identifier and that error, and an error of the hook ends the run; after a nil
  value without an error the hook is not called. A value that is not nil, returned
  without an error, is defined under the name of the identifier, and an error of that
  definition is returned at once. In a run that completes, the calls of the hook are
  exactly one for each identifier whose routine returned an error, in selector order.
\<close>

theorem DefineScannerVariables_resolution:
  "DefineScannerVariables valuers \<lparr>list = []\<rparr> sCtx scn tr = Some (None, tr)
   \<and> (valuers vid = Some valuer \<and> valuer sCtx = Some (val, err) \<and> (err \<noteq> None \<or> val = None)
        \<and> defineDefaultValue vid scn tr = (Some e, tr1) \<longrightarrow>
      DefineScannerVariables valuers \<lparr>list = vid # vids\<rparr> sCtx scn tr
        = Some (Some (case err of None \<Rightarrow> e | Some er \<Rightarrow> ErrJoined er e), tr1))
   \<and> (valuers vid = Some valuer \<and> valuer sCtx = Some (val, Some er)
        \<and> zeroValue (Meta vid) = Some z \<and> scn tr (String vid) z = None
        \<and> HandleValueError sCtx (tr @ [CallDefineVariable (String vid) z]) vid er = Some herr \<longrightarrow>
      DefineScannerVariables valuers \<lparr>list = vid # vids\<rparr> sCtx scn tr
        = Some (Some herr, tr @ [CallDefineVariable (String vid) z, CallHandleValueError vid er]))
   \<and> (valuers vid = Some valuer \<and> valuer sCtx = Some (val, Some er)
        \<and> zeroValue (Meta vid) = Some z \<and> scn tr (String vid) z = None
        \<and> HandleValueError sCtx (tr @ [CallDefineVariable (String vid) z]) vid er = None \<longrightarrow>
      DefineScannerVariables valuers \<lparr>list = vid # vids\<rparr> sCtx scn tr
        = DefineScannerVariables valuers \<lparr>list = vids\<rparr> sCtx scn
            (tr @ [CallDefineVariable (String vid) z, CallHandleValueError vid er]))
   \<and> (valuers vid = Some valuer \<and> valuer sCtx = Some (None, None)
        \<and> zeroValue (Meta vid) = Some z \<and> scn tr (String vid) z = None \<longrightarrow>
      DefineScannerVariables valuers \<lparr>list = vid # vids\<rparr> sCtx scn tr
        = DefineScannerVariables valuers \<lparr>list = vids\<rparr> sCtx scn
            (tr @ [CallDefineVariable (String vid) z]))
   \<and> (valuers vid = Some valuer \<and> valuer sCtx = Some (Some v, None)
        \<and> scn tr (String vid) v = Some e \<longrightarrow>
      DefineScannerVariables valuers \<lparr>list = vid # vids\<rparr> sCtx scn tr
        = Some (Some e, tr @ [CallDefineVariable (String vid) v]))
   \<and> (valuers vid = Some valuer \<and> valuer sCtx = Some (Some v, None)
        \<and> scn tr (String vid) v = None \<longrightarrow>
      DefineScannerVariables valuers \<lparr>list = vid # vids\<rparr> sCtx scn tr
        = DefineScannerVariables valuers \<lparr>list = vids\<rparr> sCtx scn
            (tr @ [CallDefineVariable (String vid) v]))
   \<and> (DefineScannerVariables valuers vr sCtx scn tr = Some (None, tr') \<longrightarrow>
      (\<exists>new. tr' = tr @ new
         \<and> filter isHandleValueError new = failureCalls valuers sCtx (list vr)))"
proof -
  have g: "DefineScannerVariables valuers \<lparr>list = []\<rparr> sCtx scn tr = Some (None, tr)"
    by (simp add: DefineScannerVariables_def)
  have a: "valuers vid = Some valuer \<and> valuer sCtx = Some (val, err) \<and> (err \<noteq> None \<or> val = None)
        \<and> defineDefaultValue vid scn tr = (Some e, tr1) \<longrightarrow>
      DefineScannerVariables valuers \<lparr>list = vid # vids\<rparr> sCtx scn tr
        = Some (Some (case err of None \<Rightarrow> e | Some er \<Rightarrow> ErrJoined er e), tr1)"
    using scan_step_default_fails [where valuers = valuers and vid = vid and valuer = valuer
        and sCtx = sCtx and val = val and err = err and scn = scn and tr = tr and e = e
        and ?tr1.0 = tr1 and vids = vids]
    by (simp add: DefineScannerVariables_def)
  have b: "valuers vid = Some valuer \<and> valuer sCtx = Some (val, Some er)
        \<and> zeroValue (Meta vid) = Some z \<and> scn tr (String vid) z = None
        \<and> HandleValueError sCtx (tr @ [CallDefineVariable (String vid) z]) vid er = Some herr \<longrightarrow>
      DefineScannerVariables valuers \<lparr>list = vid # vids\<rparr> sCtx scn tr
        = Some (Some herr, tr @ [CallDefineVariable (String vid) z, CallHandleValueError vid er])"
    using scan_step_hook [where valuers = valuers and vid = vid and valuer = valuer
        and sCtx = sCtx and val = val and er = er and scn = scn and tr = tr and z = z
        and vids = vids]
    by (simp add: DefineScannerVariables_def)
  have c: "valuers vid = Some valuer \<and> valuer sCtx = Some (val, Some er)
        \<and> zeroValue (Meta vid) = Some z \<and> scn tr (String vid) z = None
        \<and> HandleValueError sCtx (tr @ [CallDefineVariable (String vid) z]) vid er = None \<longrightarrow>
      DefineScannerVariables valuers \<lparr>list = vid # vids\<rparr> sCtx scn tr
        = DefineScannerVariables valuers \<lparr>list = vids\<rparr> sCtx scn
            (tr @ [CallDefineVariable (String vid) z, CallHandleValueError vid er])"
    using scan_step_hook [where valuers = valuers and vid = vid and valuer = valuer
        and sCtx = sCtx and val = val and er = er and scn = scn and tr = tr and z = z
        and vids = vids]
    by (simp add: DefineScannerVariables_def)
  have d: "valuers vid = Some valuer \<and> valuer sCtx = Some (None, None)
        \<and> zeroValue (Meta vid) = Some z \<and> scn tr (String vid) z = None \<longrightarrow>
      DefineScannerVariables valuers \<lparr>list = vid # vids\<rparr> sCtx scn tr
        = DefineScannerVariables valuers \<lparr>list = vids\<rparr> sCtx scn
            (tr @ [CallDefineVariable (String vid) z])"
    using scan_step_nil [where valuers = valuers and vid = vid and valuer = valuer
        and sCtx = sCtx and scn = scn and tr = tr and z = z and vids = vids]
    by (simp add: DefineScannerVariables_def)
  have e: "valuers vid = Some valuer \<and> valuer sCtx = Some (Some v, None)
        \<and> scn tr (String vid) v = Some e \<longrightarrow>
      DefineScannerVariables valuers \<lparr>list = vid # vids\<rparr> sCtx scn tr
        = Some (Some e, tr @ [CallDefineVariable (String vid) v])"
    using scan_step_value [where valuers = valuers and vid = vid and valuer = valuer
        and sCtx = sCtx and scn = scn and tr = tr and v = v and vids = vids]
    by (simp add: DefineScannerVariables_def)
  have f: "valuers vid = Some valuer \<and> valuer sCtx = Some (Some v, None)
        \<and> scn tr (String vid) v = None \<longrightarrow>
      DefineScannerVariables valuers \<lparr>list = vid # vids\<rparr> sCtx scn tr
        = DefineScannerVariables valuers \<lparr>list = vids\<rparr> sCtx scn
            (tr @ [CallDefineVariable (String vid) v])"
    using scan_step_value [where valuers = valuers and vid = vid and valuer = valuer
        and sCtx = sCtx and scn = scn and tr = tr and v = v and vids = vids]
    by (simp add: DefineScannerVariables_def)
  have h: "DefineScannerVariables valuers vr sCtx scn tr = Some (None, tr') \<longrightarrow>
      (\<exists>new. tr' = tr @ new
         \<and> filter isHandleValueError new = failureCalls valuers sCtx (list vr))"
    using scan_loop_hooks [where valuers = valuers and vids = "list vr" and sCtx = sCtx
        and scn = scn and tr = tr and tr' = tr']
    by (simp add: DefineScannerVariables_def)
  show ?thesis
    using g a b c d e f h by (intro conjI)
qed
theorem DefineScannerVariables_resolution_witness:
  "DefineScannerVariables (Valuers linuxPlatform) \<lparr>list = [VarProcessParentId]\<rparr>
       (processScanContext ignoreValueError) (rejectName ''process_parent_id'') []
     = Some (Some (ErrJoined (ErrExternal ''no such process'') (ErrExternal ''rejected'')),
             [CallDefineVariable ''process_parent_id'' (VInt 0)])
   \<and> DefineScannerVariables (Valuers linuxPlatform) \<lparr>list = [VarProcessParentId, VarProcessId]\<rparr>
       (processScanContext escalateValueError) acceptAll []
     = Some (Some (ErrExternal ''no such process''),
             [CallDefineVariable ''process_parent_id'' (VInt 0),
              CallHandleValueError VarProcessParentId (ErrExternal ''no such process'')])
   \<and> DefineScannerVariables (Valuers linuxPlatform) \<lparr>list = [VarProcessParentId]\<rparr>
       (processScanContext ignoreValueError) acceptAll []
     = Some (None,
             [CallDefineVariable ''process_parent_id'' (VInt 0),
              CallHandleValueError VarProcessParentId (ErrExternal ''no such process'')])
   \<and> DefineScannerVariables (Valuers linuxPlatform) \<lparr>list = [VarProcessName]\<rparr>
       (fileScanContext '''') acceptAll []
     = Some (None, [CallDefineVariable ''process_name'' (VString '''')])
   \<and> DefineScannerVariables (Valuers linuxPlatform) \<lparr>list = [VarProcessId]\<rparr>
       (processScanContext ignoreValueError) (rejectName ''process_id'') []
     = Some (Some (ErrExternal ''rejected''), [CallDefineVariable ''process_id'' (VInt 1)])
   \<and> DefineScannerVariables (Valuers linuxPlatform) \<lparr>list = [VarProcessId]\<rparr>
       (processScanContext ignoreValueError) acceptAll []
     = Some (None, [CallDefineVariable ''process_id'' (VInt 1)])"
proof -
  let ?V = "Valuers linuxPlatform"
  let ?I = "processScanContext ignoreValueError"
  let ?E = "processScanContext escalateValueError"
  let ?F = "fileScanContext ''''"
  let ?er = "ErrExternal ''no such process''"
  let ?dp = "CallDefineVariable ''process_parent_id'' (VInt 0)"
  let ?hp = "CallHandleValueError VarProcessParentId (ErrExternal ''no such process'')"
  have n1: "String VarProcessParentId = ''process_parent_id''"
    and n2: "String VarProcessId = ''process_id''"
    and n3: "String VarProcessName = ''process_name''"
    by code_simp+
  have z1: "zeroValue (Meta VarProcessParentId) = Some (VInt 0)"
    and z3: "zeroValue (Meta VarProcessName) = Some (VString '''')"
    by code_simp+
  have r1I: "varProcessParentIdFunc ?I = Some (None, Some ?er)"
    and r1E: "varProcessParentIdFunc ?E = Some (None, Some ?er)"
    by (simp_all add: varProcessParentIdFunc_def processScanContext_def failingProcess_def)
  have r2: "varProcessIdFunc ?I = Some (Some (VInt 1), None)"
    by (simp add: varProcessIdFunc_def processScanContext_def)
  have r3: "varProcessNameFunc ?F = Some (None, None)"
    by (simp add: varProcessNameFunc_def fileScanContext_def)
  have hI: "HandleValueError ?I ([] @ [CallDefineVariable (String VarProcessParentId) (VInt 0)])
              VarProcessParentId ?er = None"
    by (simp add: processScanContext_def ignoreValueError_def)
  have hE: "HandleValueError ?E ([] @ [CallDefineVariable (String VarProcessParentId) (VInt 0)])
              VarProcessParentId ?er = Some ?er"
    by (simp add: processScanContext_def escalateValueError_def)
  have acc: "acceptAll tr name val = None" for tr name val
    by (simp add: acceptAll_def)
  have rejP: "rejectName ''process_id'' [] (String VarProcessId) (VInt 1)
                = Some (ErrExternal ''rejected'')"
    by (simp add: rejectName_def n2)
  have dA: "defineDefaultValue VarProcessParentId (rejectName ''process_parent_id'') []
              = (Some (ErrExternal ''rejected''), [?dp])"
    by code_simp
  note R = DefineScannerVariables_resolution
  have nil: "DefineScannerVariables ?V \<lparr>list = []\<rparr> sCtx scn tr = Some (None, tr)" for sCtx scn tr
    by (rule R [where valuers = ?V and sCtx = sCtx and scn = scn and tr = tr, THEN conjunct1])

  have "DefineScannerVariables ?V \<lparr>list = VarProcessParentId # []\<rparr> ?I
          (rejectName ''process_parent_id'') []
        = Some (Some (case Some ?er of None \<Rightarrow> ErrExternal ''rejected''
                      | Some er \<Rightarrow> ErrJoined er (ErrExternal ''rejected'')), [?dp])"
    by (rule R [where valuers = ?V and vid = VarProcessParentId
                  and valuer = varProcessParentIdFunc
                  and sCtx = ?I and val = None and err = "Some ?er"
                  and scn = "rejectName ''process_parent_id''" and tr = "[]"
                  and e = "ErrExternal ''rejected''" and ?tr1.0 = "[?dp]" and vids = "[]",
                THEN conjunct2, THEN conjunct1, THEN mp])
       (simp add: Valuers_VarProcessParentId r1I dA)
  then have wA: "DefineScannerVariables ?V \<lparr>list = [VarProcessParentId]\<rparr> ?I
          (rejectName ''process_parent_id'') []
        = Some (Some (ErrJoined ?er (ErrExternal ''rejected'')), [?dp])"
    by simp

  have "DefineScannerVariables ?V \<lparr>list = VarProcessParentId # [VarProcessId]\<rparr> ?E acceptAll []
        = Some (Some ?er, [] @ [CallDefineVariable (String VarProcessParentId) (VInt 0),
                                CallHandleValueError VarProcessParentId ?er])"
    by (rule R [where valuers = ?V and vid = VarProcessParentId
                  and valuer = varProcessParentIdFunc
                  and sCtx = ?E and val = None and er = ?er and z = "VInt 0"
                  and scn = acceptAll and tr = "[]" and herr = ?er and vids = "[VarProcessId]",
                THEN conjunct2, THEN conjunct2, THEN conjunct1, THEN mp])
       (simp add: Valuers_VarProcessParentId r1E z1 acc hE [simplified])
  then have wB: "DefineScannerVariables ?V \<lparr>list = [VarProcessParentId, VarProcessId]\<rparr> ?E
          acceptAll [] = Some (Some ?er, [?dp, ?hp])"
    by (simp add: n1)

  have "DefineScannerVariables ?V \<lparr>list = VarProcessParentId # []\<rparr> ?I acceptAll []
        = DefineScannerVariables ?V \<lparr>list = []\<rparr> ?I acceptAll
            ([] @ [CallDefineVariable (String VarProcessParentId) (VInt 0),
                   CallHandleValueError VarProcessParentId ?er])"
    by (rule R [where valuers = ?V and vid = VarProcessParentId
                  and valuer = varProcessParentIdFunc
                  and sCtx = ?I and val = None and er = ?er and z = "VInt 0"
                  and scn = acceptAll and tr = "[]" and vids = "[]",
                THEN conjunct2, THEN conjunct2, THEN conjunct2, THEN conjunct1, THEN mp])
       (simp add: Valuers_VarProcessParentId r1I z1 acc hI [simplified])
  then have wC: "DefineScannerVariables ?V \<lparr>list = [VarProcessParentId]\<rparr> ?I acceptAll []
        = Some (None, [?dp, ?hp])"
    by (simp add: nil n1)

  have "DefineScannerVariables ?V \<lparr>list = VarProcessName # []\<rparr> ?F acceptAll []
        = DefineScannerVariables ?V \<lparr>list = []\<rparr> ?F acceptAll
            ([] @ [CallDefineVariable (String VarProcessName) (VString '''')])"
    by (rule R [where valuers = ?V and vid = VarProcessName and valuer = varProcessNameFunc
                  and sCtx = ?F and z = "VString ''''" and scn = acceptAll and tr = "[]"
                  and vids = "[]",
                THEN conjunct2, THEN conjunct2, THEN conjunct2, THEN conjunct2,
                THEN conjunct1, THEN mp])
       (simp add: Valuers_VarProcessName r3 z3 acc)
  then have wD: "DefineScannerVariables ?V \<lparr>list = [VarProcessName]\<rparr> ?F acceptAll []
        = Some (None, [CallDefineVariable ''process_name'' (VString '''')])"
    by (simp add: nil n3)

  have "DefineScannerVariables ?V \<lparr>list = VarProcessId # []\<rparr> ?I (rejectName ''process_id'') []
        = Some (Some (ErrExternal ''rejected''),
                [] @ [CallDefineVariable (String VarProcessId) (VInt 1)])"
    by (rule R [where valuers = ?V and vid = VarProcessId and valuer = varProcessIdFunc
                  and sCtx = ?I and v = "VInt 1" and scn = "rejectName ''process_id''"
                  and tr = "[]" and e = "ErrExternal ''rejected''" and vids = "[]",
                THEN conjunct2, THEN conjunct2, THEN conjunct2, THEN conjunct2,
                THEN conjunct2, THEN conjunct1, THEN mp])
       (simp add: Valuers_VarProcessId r2 rejP)
  then have wE: "DefineScannerVariables ?V \<lparr>list = [VarProcessId]\<rparr> ?I
          (rejectName ''process_id'') []
        = Some (Some (ErrExternal ''rejected''), [CallDefineVariable ''process_id'' (VInt 1)])"
    by (simp add: n2)

  have "DefineScannerVariables ?V \<lparr>list = VarProcessId # []\<rparr> ?I acceptAll []
        = DefineScannerVariables ?V \<lparr>list = []\<rparr> ?I acceptAll
            ([] @ [CallDefineVariable (String VarProcessId) (VInt 1)])"
    by (rule R [where valuers = ?V and vid = VarProcessId and valuer = varProcessIdFunc
                  and sCtx = ?I and v = "VInt 1" and scn = acceptAll and tr = "[]"
                  and vids = "[]",
                THEN conjunct2, THEN conjunct2, THEN conjunct2, THEN conjunct2,
                THEN conjunct2, THEN conjunct2, THEN conjunct1, THEN mp])
       (simp add: Valuers_VarProcessId r2 acc)
  then have wF: "DefineScannerVariables ?V \<lparr>list = [VarProcessId]\<rparr> ?I acceptAll []
        = Some (None, [CallDefineVariable ''process_id'' (VInt 1)])"
    by (simp add: nil n2)

  show ?thesis
    using wA wB wC wD wE wF by (intro conjI)
qed

end
